theory Spec2Isabelle
  imports Complex_Main "HOL-Library.Product_Lexorder" "HOL-Library.AList"
begin

section \<open>Python values used by CameraCalibration\<close>

text \<open>
  \<^verbatim>\<open>time.struct_time\<close> is a 9-tuple
  (tm_year, tm_mon, tm_mday, tm_hour, tm_min, tm_sec, tm_wday, tm_yday, tm_isdst).
  Two of them compare like tuples, lexicographically; this is the order of nested
  pairs of \<open>HOL-Library.Product_Lexorder\<close>.
\<close>

type_synonym struct_time = "int \<times> int \<times> int \<times> int \<times> int \<times> int \<times> int \<times> int \<times> int"

text \<open>The exceptions the module raises or lets through. \<open>Exception\<close> is the plain
  \<^verbatim>\<open>raise Exception(...)\<close> of \<^verbatim>\<open>_checkShape\<close> and \<^verbatim>\<open>deleteCoeff\<close>.\<close>

datatype exn = IndexError | KeyError | ValueError | TypeError | StopIteration | Exception

text \<open>
  The two functions of module \<^verbatim>\<open>time\<close> that \<^verbatim>\<open>_toDate\<close> calls are not part of the
  repository: \<open>localtime\<close> is the value \<^verbatim>\<open>time.localtime()\<close> returns at the moment of the
  call, \<open>strptime s\<close> is \<^verbatim>\<open>time.strptime(s, DATE_FORMAT)\<close>, \<open>None\<close> when it raises
  ValueError.
\<close>

record clock =
  localtime :: struct_time
  strptime :: "string \<Rightarrow> struct_time option"

text \<open>
  A numpy array is its shape and its elements in row-major order. Element values are
  reals; every arithmetic operation on arrays is done by numpy or by another
  collaborator and enters the model as a parameter (section on the pipeline).
\<close>

record ndarray =
  shape :: "nat list"
  elems :: "real list"

datatype pyobj =
    PyNone
  | Ndarray ndarray
  | Tuple pyobj pyobj
  | Float real
  | Obj string

text \<open>A calibration record is the Python list \<^verbatim>\<open>[date, info, data]\<close> (lens, psf, balance)
  or \<^verbatim>\<open>[date, info, data, error]\<close> (dark current, noise, flat field).\<close>

datatype calib =
    Calib3 struct_time string pyobj
  | Calib4 struct_time string pyobj pyobj

fun item0 :: "calib \<Rightarrow> struct_time" where
  "item0 (Calib3 d i x) = d"
| "item0 (Calib4 d i x e) = d"

fun item2 :: "calib \<Rightarrow> pyobj" where
  "item2 (Calib3 d i x) = x"
| "item2 (Calib4 d i x e) = x"

text \<open>Python's \<^verbatim>\<open>l[i]\<close>, \<^verbatim>\<open>l.insert(i, x)\<close> and \<^verbatim>\<open>l.pop(i)\<close> on a list.\<close>

definition getitem :: "'a list \<Rightarrow> int \<Rightarrow> exn + 'a" where
  "getitem l i =
     (let n = int (length l); j = (if i < 0 then i + n else i)
      in if 0 \<le> j \<and> j < n then Inr (l ! nat j) else Inl IndexError)"

definition list_insert :: "nat \<Rightarrow> 'a \<Rightarrow> 'a list \<Rightarrow> 'a list" where
  "list_insert i x l = take i l @ x # drop i l"

definition list_pop :: "nat \<Rightarrow> 'a list \<Rightarrow> 'a list" where
  "list_pop i l = take i l @ drop (Suc i) l"

text \<open>A dict keeps its keys in insertion order: an association list. \<open>d[k]\<close> raises
  KeyError on a missing key; the key \<^verbatim>\<open>None\<close> is never stored.\<close>

type_synonym 'v dict = "(string \<times> 'v) list"

definition dict_getitem :: "'v dict \<Rightarrow> string option \<Rightarrow> exn + 'v" where
  "dict_getitem d k =
     (case k of None \<Rightarrow> Inl KeyError
      | Some k' \<Rightarrow> (case map_of d k' of None \<Rightarrow> Inl KeyError | Some v \<Rightarrow> Inr v))"

definition dict_setitem :: "string \<Rightarrow> 'v \<Rightarrow> 'v dict \<Rightarrow> 'v dict" where
  "dict_setitem k v d = AList.update k v d"

section \<open>The date index\<close>

definition toDate :: "clock \<Rightarrow> string option \<Rightarrow> exn + struct_time" where
  "toDate clk date =
     (case date of
        None \<Rightarrow> Inr (localtime clk)
      | Some s \<Rightarrow> (case strptime clk s of None \<Rightarrow> Inl ValueError | Some t \<Rightarrow> Inr t))"

text \<open>\<^verbatim>\<open>next((i for i, n in enumerate(l) if n[0] < date), len(l))\<close>\<close>

fun insertDateIndex :: "struct_time \<Rightarrow> calib list \<Rightarrow> nat" where
  "insertDateIndex date [] = 0"
| "insertDateIndex date (n # l) =
     (if item0 n < date then 0 else Suc (insertDateIndex date l))"

text \<open>The \<^verbatim>\<open>try\<close> of \<^verbatim>\<open>_getFromDate\<close> catches ValueError and TypeError only; the IndexError
  of \<^verbatim>\<open>l[0]\<close> on an empty list leaves the function, from the body and from the handler.\<close>

definition getFromDate :: "clock \<Rightarrow> calib list \<Rightarrow> string option \<Rightarrow> exn + calib" where
  "getFromDate clk l date =
     (case toDate clk date of
        Inl e \<Rightarrow> (if e = ValueError \<or> e = TypeError then getitem l 0 else Inl e)
      | Inr d \<Rightarrow>
          (let i = int (insertDateIndex d l) - 1
           in if i = - 1 then getitem l 0 else getitem l i))"

section \<open>The calibration store\<close>

record coeffs =
  name :: string
  depth :: nat
  light_spectra :: "string list"
  dark_current :: "calib list"
  flat_field :: "calib list dict"
  lens :: "calib list dict"
  noise :: "calib list"
  psf :: "calib list dict"
  coeffs_shape :: "nat list option"
  balance :: "calib list dict"

definition init_coeffs :: coeffs where
  "init_coeffs = \<lparr> name = ''no camera'', depth = 16, light_spectra = [],
     dark_current = [], flat_field = [], lens = [], noise = [], psf = [],
     coeffs_shape = None, balance = [] \<rparr>"

definition registerLight :: "string \<Rightarrow> coeffs \<Rightarrow> coeffs" where
  "registerLight light_spectrum c =
     (if light_spectrum \<notin> set (light_spectra c)
      then c\<lparr>light_spectra := light_spectra c @ [light_spectrum]\<rparr> else c)"

definition checkShape :: "pyobj \<Rightarrow> coeffs \<Rightarrow> exn + coeffs" where
  "checkShape array c =
     (case array of
        Ndarray a \<Rightarrow>
          (case coeffs_shape c of
             None \<Rightarrow> Inr (c\<lparr>coeffs_shape := Some (shape a)\<rparr>)
           | Some s \<Rightarrow> if take 2 s \<noteq> take 2 (shape a) then Inl Exception else Inr c)
      | _ \<Rightarrow> Inr c)"

text \<open>
  The four spectrum-keyed add operations end with the same three lines:
  \<^verbatim>\<open>if light_spectrum not in f: f[light_spectrum] = []\<close> and then
  \<^verbatim>\<open>f[light_spectrum].insert(_insertDateIndex(date, f[light_spectrum]), rec)\<close>.
\<close>

definition insertByLight :: "struct_time \<Rightarrow> calib \<Rightarrow> string \<Rightarrow> calib list dict \<Rightarrow> calib list dict" where
  "insertByLight date r light_spectrum f =
     (let l = (case map_of f light_spectrum of None \<Rightarrow> [] | Some l' \<Rightarrow> l')
      in dict_setitem light_spectrum (list_insert (insertDateIndex date l) r l) f)"

text \<open>A mutating method returns the exception it raised, if any, and the state it left.\<close>

definition addDarkCurrent ::
  "clock \<Rightarrow> pyobj \<Rightarrow> pyobj \<Rightarrow> string option \<Rightarrow> string \<Rightarrow> pyobj \<Rightarrow> coeffs \<Rightarrow> exn option \<times> coeffs" where
  "addDarkCurrent clk slope intercept date info error c =
     (case toDate clk date of
        Inl e \<Rightarrow> (Some e, c)
      | Inr dt \<Rightarrow>
          (case checkShape slope c of
             Inl e \<Rightarrow> (Some e, c)
           | Inr c1 \<Rightarrow>
               (case checkShape intercept c1 of
                  Inl e \<Rightarrow> (Some e, c1)
                | Inr c2 \<Rightarrow>
                    (let d = dark_current c2;
                         data = (if intercept = PyNone then slope else Tuple slope intercept)
                     in (None, c2\<lparr>dark_current :=
                           list_insert (insertDateIndex dt d) (Calib4 dt info data error) d\<rparr>)))))"

definition addNoise ::
  "clock \<Rightarrow> pyobj \<Rightarrow> string option \<Rightarrow> string \<Rightarrow> pyobj \<Rightarrow> coeffs \<Rightarrow> exn option \<times> coeffs" where
  "addNoise clk nlf_coeff date info error c =
     (case toDate clk date of
        Inl e \<Rightarrow> (Some e, c)
      | Inr dt \<Rightarrow>
          (let d = noise c
           in (None, c\<lparr>noise :=
                 list_insert (insertDateIndex dt d) (Calib4 dt info nlf_coeff error) d\<rparr>)))"

definition addDeconvolutionBalance ::
  "clock \<Rightarrow> pyobj \<Rightarrow> string option \<Rightarrow> string \<Rightarrow> string \<Rightarrow> coeffs \<Rightarrow> exn option \<times> coeffs" where
  "addDeconvolutionBalance clk bal date info light_spectrum c =
     (let c1 = registerLight light_spectrum c
      in case toDate clk date of
           Inl e \<Rightarrow> (Some e, c1)
         | Inr dt \<Rightarrow>
             (None, c1\<lparr>balance :=
                insertByLight dt (Calib3 dt info bal) light_spectrum (balance c1)\<rparr>))"

definition addPSF ::
  "clock \<Rightarrow> pyobj \<Rightarrow> string option \<Rightarrow> string \<Rightarrow> string \<Rightarrow> coeffs \<Rightarrow> exn option \<times> coeffs" where
  "addPSF clk p date info light_spectrum c =
     (let c1 = registerLight light_spectrum c
      in case toDate clk date of
           Inl e \<Rightarrow> (Some e, c1)
         | Inr dt \<Rightarrow>
             (None, c1\<lparr>psf :=
                insertByLight dt (Calib3 dt info p) light_spectrum (psf c1)\<rparr>))"

definition addFlatField ::
  "clock \<Rightarrow> pyobj \<Rightarrow> string option \<Rightarrow> string \<Rightarrow> pyobj \<Rightarrow> string \<Rightarrow> coeffs \<Rightarrow> exn option \<times> coeffs" where
  "addFlatField clk arr date info error light_spectrum c =
     (let c1 = registerLight light_spectrum c
      in case checkShape arr c1 of
           Inl e \<Rightarrow> (Some e, c1)
         | Inr c2 \<Rightarrow>
             (case toDate clk date of
                Inl e \<Rightarrow> (Some e, c2)
              | Inr dt \<Rightarrow>
                  (None, c2\<lparr>flat_field :=
                     insertByLight dt (Calib4 dt info arr error) light_spectrum (flat_field c2)\<rparr>)))"

text \<open>
  \<^verbatim>\<open>addLens\<close> takes a LensDistortion instance (here: its \<^verbatim>\<open>coeffs\<close>) or the path of a saved
  one; \<open>readFromFile\<close> is \<^verbatim>\<open>LensDistortion().readFromFile(path)\<close> followed by \<^verbatim>\<open>.coeffs\<close>,
  a collaborator outside this module.
\<close>

datatype lens_arg = LensInstance pyobj | LensFile string

definition addLens ::
  "(string \<Rightarrow> exn + pyobj) \<Rightarrow> clock \<Rightarrow> lens_arg \<Rightarrow> string option \<Rightarrow> string \<Rightarrow> string \<Rightarrow> coeffs
     \<Rightarrow> exn option \<times> coeffs" where
  "addLens readFromFile clk lns date info light_spectrum c =
     (let c1 = registerLight light_spectrum c
      in case toDate clk date of
           Inl e \<Rightarrow> (Some e, c1)
         | Inr dt \<Rightarrow>
             (case (case lns of LensInstance k \<Rightarrow> Inr k | LensFile p \<Rightarrow> readFromFile p) of
                Inl e \<Rightarrow> (Some e, c1)
              | Inr k \<Rightarrow>
                  (None, c1\<lparr>lens :=
                     insertByLight dt (Calib3 dt info k) light_spectrum (lens c1)\<rparr>)))"

text \<open>
  \<^verbatim>\<open>clearOldCalibrations\<close>: each assignment keeps \<^verbatim>\<open>[...][-1]\<close>; an empty sequence raises
  IndexError and leaves the assignments already made. The loops run over the keys of
  'flat field' and 'lens'; 'psf' and 'balance' are not touched.
\<close>

fun keepLast :: "calib list dict \<Rightarrow> exn option \<times> calib list dict" where
  "keepLast [] = (None, [])"
| "keepLast ((light, l) # f) =
     (case getitem l (- 1) of
        Inl e \<Rightarrow> (Some e, (light, l) # f)
      | Inr x \<Rightarrow> (case keepLast f of (r, f') \<Rightarrow> (r, (light, [x]) # f')))"

definition clearOldCalibrations :: "coeffs \<Rightarrow> exn option \<times> coeffs" where
  "clearOldCalibrations c =
     (case getitem (dark_current c) (- 1) of
        Inl e \<Rightarrow> (Some e, c)
      | Inr x \<Rightarrow>
          (let c1 = c\<lparr>dark_current := [x]\<rparr>
           in case getitem (noise c1) (- 1) of
                Inl e \<Rightarrow> (Some e, c1)
              | Inr y \<Rightarrow>
                  (let c2 = c1\<lparr>noise := [y]\<rparr>
                   in case keepLast (flat_field c2) of
                        (Some e, f) \<Rightarrow> (Some e, c2\<lparr>flat_field := f\<rparr>)
                      | (None, f) \<Rightarrow>
                          (let c3 = c2\<lparr>flat_field := f\<rparr>
                           in case keepLast (lens c3) of
                                (r, g) \<Rightarrow> (r, c3\<lparr>lens := g\<rparr>)))))"

text \<open>
  \<^verbatim>\<open>self.coeffs[name]\<close> for the six calibration categories: a list for 'dark current'
  and 'noise', a dict from light spectrum to list for the others.
\<close>

datatype category = DarkCurrent | FlatField | Lens | Noise | PSF | Balance

datatype table = Flat "calib list" | BySpectrum "calib list dict"

fun coeffs_getitem :: "coeffs \<Rightarrow> category \<Rightarrow> table" where
  "coeffs_getitem c DarkCurrent = Flat (dark_current c)"
| "coeffs_getitem c Noise = Flat (noise c)"
| "coeffs_getitem c FlatField = BySpectrum (flat_field c)"
| "coeffs_getitem c Lens = BySpectrum (lens c)"
| "coeffs_getitem c PSF = BySpectrum (psf c)"
| "coeffs_getitem c Balance = BySpectrum (balance c)"

text \<open>The sequence \<open>c\<close> that \<^verbatim>\<open>deleteCoeff\<close> pops from is the list object held in the
  store; \<open>store_seq\<close> writes the shortened list back where it was read.\<close>

fun store_seq :: "category \<Rightarrow> string option \<Rightarrow> calib list \<Rightarrow> coeffs \<Rightarrow> coeffs" where
  "store_seq DarkCurrent light l c = c\<lparr>dark_current := l\<rparr>"
| "store_seq Noise light l c = c\<lparr>noise := l\<rparr>"
| "store_seq FlatField (Some k) l c = c\<lparr>flat_field := dict_setitem k l (flat_field c)\<rparr>"
| "store_seq Lens (Some k) l c = c\<lparr>lens := dict_setitem k l (lens c)\<rparr>"
| "store_seq PSF (Some k) l c = c\<lparr>psf := dict_setitem k l (psf c)\<rparr>"
| "store_seq Balance (Some k) l c = c\<lparr>balance := dict_setitem k l (balance c)\<rparr>"
| "store_seq nm None l c = c"

text \<open>
  \<^verbatim>\<open>self.coeffs[name][light]\<close>: on a list it raises TypeError for every \<open>light\<close> (a string
  or None), which \<^verbatim>\<open>deleteCoeff\<close> and \<^verbatim>\<open>getCoeff\<close> catch to use the list itself; on a
  dict it raises KeyError for a missing key.
\<close>

definition coeffs_seq :: "coeffs \<Rightarrow> category \<Rightarrow> string option \<Rightarrow> exn + calib list" where
  "coeffs_seq c nm light =
     (case coeffs_getitem c nm of
        Flat l \<Rightarrow> Inr l
      | BySpectrum d \<Rightarrow> dict_getitem d light)"

definition deleteCoeff ::
  "clock \<Rightarrow> category \<Rightarrow> string option \<Rightarrow> string option \<Rightarrow> coeffs \<Rightarrow> exn option \<times> coeffs" where
  "deleteCoeff clk nm date light c =
     (case coeffs_seq c nm light of
        Inl e \<Rightarrow> (Some e, c)
      | Inr l \<Rightarrow>
          (case toDate clk date of
             Inl e \<Rightarrow> (Some e, c)
           | Inr d \<Rightarrow>
               (let i = int (insertDateIndex d l) - 1
                in if i \<noteq> - 1 then (None, store_seq nm light (list_pop (nat i) l) c)
                   else (Some Exception, c))))"

text \<open>\<^verbatim>\<open>getCoeff\<close> returns a record or \<^verbatim>\<open>None\<close>, or raises.\<close>

definition getCoeff ::
  "clock \<Rightarrow> category \<Rightarrow> string option \<Rightarrow> string option \<Rightarrow> coeffs \<Rightarrow> exn + calib option" where
  "getCoeff clk nm light date c =
     (case coeffs_getitem c nm of
        Flat l \<Rightarrow> map_sum id Some (getFromDate clk l date)
      | BySpectrum d \<Rightarrow>
          (case dict_getitem d light of
             Inr l \<Rightarrow> map_sum id Some (getFromDate clk l date)
           | Inl e \<Rightarrow>
               (if e = KeyError then
                  (case d of
                     [] \<Rightarrow> Inr None
                   | (k, i) # _ \<Rightarrow> map_sum id Some (getFromDate clk i date))
                else Inl e)))"

section \<open>The correction pipeline\<close>

text \<open>
  What \<^verbatim>\<open>correct\<close> is given as \<^verbatim>\<open>images\<close> or \<^verbatim>\<open>bgImages\<close>: a list or tuple of images, or
  one object, which is a file name or an array. The date is one string (or None) for
  all categories, or a dict from category name to string.
\<close>

datatype source = Path string | Array ndarray

datatype images = Seq "source list" | Single source

datatype date_arg = DateStr "string option" | DateDict "string option dict"

text \<open>A noise level function is the lambda over stored coefficients that \<^verbatim>\<open>correct\<close>
  builds, or the one a SingleTimeEffectDetection object carries.\<close>

datatype nlf = BoundedFunction pyobj | SteFunction string

text \<open>
  The collaborators: functions of numpy, skimage and of modules of imgProcessor other
  than CameraCalibration. Each returns its result or the exception it raises. An
  in-place numpy statement (\<open>np_isub\<close>, \<open>np_idiv_nonzero\<close>, \<open>np_idiv\<close>) returns the
  new content of the array it updates, and leaves the array as it was when it raises.
  The others do not write to their arguments.

  \<^item> \<open>imread s\<close> is \<^verbatim>\<open>imread(s)\<close>, \<open>imread_float s\<close> is
    \<^verbatim>\<open>np.asfarray(imread(s, dtype=np.float))\<close>;
  \<^item> \<open>SingleTimeEffectDetection imgs f\<close> is the object built with \<^verbatim>\<open>nStd=4\<close> and
    \<^verbatim>\<open>noise_level_function=f\<close>: its \<^verbatim>\<open>noSTE\<close> and its \<^verbatim>\<open>noise_level_function\<close>;
  \<^item> \<open>unpack_other x\<close> is \<^verbatim>\<open>a, b = x\<close> for an \<open>x\<close> that is not a tuple;
    \<open>np_mul a t\<close> is \<^verbatim>\<open>a * t\<close>, \<open>np_add a b\<close> is \<^verbatim>\<open>a + b\<close>, \<open>np_clip_above bg mx\<close> is
    \<^verbatim>\<open>bg[bg > mx] = mx\<close>;
  \<^item> \<open>np_isub image bg\<close> is \<^verbatim>\<open>image -= bg\<close>; \<open>np_idiv_nonzero image d\<close> is
    \<^verbatim>\<open>i = d != 0; image[i] /= d[i]\<close>; \<open>np_max image\<close> is \<^verbatim>\<open>image.max()\<close>;
    \<open>np_idiv image mx\<close> is \<^verbatim>\<open>image /= mx\<close>;
  \<^item> \<open>clip_rescale dec mx\<close> is \<^verbatim>\<open>dec[dec < 0] = 0; dec *= mx\<close>;
  \<^item> \<open>lens_correct k image keep_size\<close> is \<^verbatim>\<open>LensDistortion(k).correct(image, keepSize=keep_size)\<close>;
  \<^item> \<open>denoise_nl_means image\<close> is \<^verbatim>\<open>image[np.isnan(image)] = 0\<close> followed by
    \<^verbatim>\<open>denoise_nl_means(image, patch_size=7, patch_distance=11)\<close>.
\<close>

record collab =
  imread :: "source \<Rightarrow> exn + ndarray"
  imread_float :: "source \<Rightarrow> exn + ndarray"
  SingleTimeEffectDetection :: "images \<Rightarrow> nlf option \<Rightarrow> exn + ndarray \<times> nlf"
  unpack_other :: "pyobj \<Rightarrow> exn + pyobj \<times> pyobj"
  np_mul :: "pyobj \<Rightarrow> real option \<Rightarrow> exn + pyobj"
  np_add :: "pyobj \<Rightarrow> pyobj \<Rightarrow> exn + pyobj"
  np_clip_above :: "pyobj \<Rightarrow> int \<Rightarrow> exn + pyobj"
  np_isub :: "ndarray \<Rightarrow> pyobj \<Rightarrow> exn + ndarray"
  np_idiv_nonzero :: "ndarray \<Rightarrow> pyobj \<Rightarrow> exn + ndarray"
  nan_to_num :: "ndarray \<Rightarrow> exn + ndarray"
  medianThreshold :: "ndarray \<Rightarrow> real \<Rightarrow> exn + ndarray"
  np_max :: "ndarray \<Rightarrow> exn + real"
  np_idiv :: "ndarray \<Rightarrow> real \<Rightarrow> exn + ndarray"
  unsupervised_wiener :: "ndarray \<Rightarrow> pyobj \<Rightarrow> exn + ndarray"
  wiener :: "ndarray \<Rightarrow> pyobj \<Rightarrow> pyobj \<Rightarrow> exn + ndarray"
  clip_rescale :: "ndarray \<Rightarrow> real \<Rightarrow> exn + ndarray"
  lens_correct :: "pyobj \<Rightarrow> ndarray \<Rightarrow> bool \<Rightarrow> exn + ndarray"
  denoise_nl_means :: "ndarray \<Rightarrow> exn + ndarray"

text \<open>The object: \<^verbatim>\<open>self.coeffs\<close>, \<^verbatim>\<open>self.noise_level_function\<close>, \<^verbatim>\<open>self.temp['bg']\<close> and
  \<^verbatim>\<open>self.last_light_spectrum\<close>. (\<^verbatim>\<open>self.last_img\<close> is another name of the working
  array; nothing below reads it.)\<close>

record camera =
  coeffs :: coeffs
  noise_level_function :: "nlf option"
  temp_bg :: "pyobj option"
  last_light_spectrum :: "string option"

definition init_camera :: camera where
  "init_camera = \<lparr> coeffs = init_coeffs, noise_level_function = None, temp_bg = None,
     last_light_spectrum = None \<rparr>"

definition bind_exn :: "exn + 'a \<Rightarrow> ('a \<Rightarrow> exn + 'b) \<Rightarrow> exn + 'b" where
  "bind_exn r f = (case r of Inl e \<Rightarrow> Inl e | Inr x \<Rightarrow> f x)"

fun date_getitem :: "date_arg \<Rightarrow> string \<Rightarrow> exn + string option" where
  "date_getitem (DateStr d) k = Inr d"
| "date_getitem (DateDict m) k = (case map_of m k of None \<Rightarrow> Inl KeyError | Some d \<Rightarrow> Inr d)"

text \<open>\<^verbatim>\<open>a[0]\<close> of an array with three axes.\<close>

definition first_slice :: "ndarray \<Rightarrow> exn + source" where
  "first_slice a =
     (if hd (shape a) = 0 then Inl IndexError
      else Inr (Array \<lparr> shape = tl (shape a),
                        elems = take (prod_list (tl (shape a))) (elems a) \<rparr>))"

text \<open>The block under \<^verbatim>\<open>if len(images) > 1\<close>.\<close>

definition removeSTE ::
  "collab \<Rightarrow> clock \<Rightarrow> images \<Rightarrow> date_arg \<Rightarrow> camera \<Rightarrow> (exn + ndarray) \<times> camera" where
  "removeSTE X clk imgs date self =
     (let n = noise (coeffs self)
      in case (if noise_level_function self = None \<and> length n \<noteq> 0
               then bind_exn (date_getitem date ''noise'') (\<lambda>dn.
                    bind_exn (getFromDate clk n dn) (\<lambda>r.
                      Inr (self\<lparr>noise_level_function := Some (BoundedFunction (item2 r))\<rparr>)))
               else Inr self) of
           Inl e \<Rightarrow> (Inl e, self)
         | Inr self1 \<Rightarrow>
             (case SingleTimeEffectDetection X imgs (noise_level_function self1) of
                Inl e \<Rightarrow> (Inl e, self1)
              | Inr (img, f) \<Rightarrow>
                  (Inr img,
                   if noise_level_function self1 = None
                   then self1\<lparr>noise_level_function := Some f\<rparr> else self1)))"

text \<open>
  The working image. A list or tuple is a stack, and so is an array with three axes
  whose last axis is not 3 or 4 long; a stack of more than one image goes through
  \<open>removeSTE\<close>, otherwise \<^verbatim>\<open>images[0]\<close> is read.
\<close>

fun acquire ::
  "collab \<Rightarrow> clock \<Rightarrow> images \<Rightarrow> date_arg \<Rightarrow> camera \<Rightarrow> (exn + ndarray) \<times> camera" where
  "acquire X clk (Seq xs) date self =
     (if length xs > 1 then removeSTE X clk (Seq xs) date self
      else (bind_exn (getitem xs 0) (imread_float X), self))"
| "acquire X clk (Single (Array a)) date self =
     (if length (shape a) = 3 \<and> last (shape a) \<notin> {3, 4}
      then (if hd (shape a) > 1 then removeSTE X clk (Single (Array a)) date self
            else (bind_exn (first_slice a) (imread_float X), self))
      else (imread_float X (Array a), self))"
| "acquire X clk (Single (Path p)) date self = (imread_float X (Path p), self)"

text \<open>
  \<^verbatim>\<open>calcDarkCurrent\<close> tests \<^verbatim>\<open>type(d) == tuple\<close> on the record \<open>d\<close> that \<^verbatim>\<open>_getFromDate\<close>
  returned. Every record is built by an add operation as a list literal, so its type
  is \<^verbatim>\<open>list\<close>.
\<close>

datatype pytype = ListType | TupleType

definition type_of_record :: "calib \<Rightarrow> pytype" where
  "type_of_record d = ListType"

definition calcDarkCurrent ::
  "collab \<Rightarrow> clock \<Rightarrow> real option \<Rightarrow> string option \<Rightarrow> camera \<Rightarrow> exn + pyobj" where
  "calcDarkCurrent X clk exposuretime date self =
     bind_exn (getFromDate clk (dark_current (coeffs self)) date) (\<lambda>d.
       if type_of_record d = TupleType then
         bind_exn (case item2 d of Tuple a b \<Rightarrow> Inr (a, b) | x \<Rightarrow> unpack_other X x)
           (\<lambda>(offs, ascent).
              bind_exn (np_mul X ascent exposuretime) (\<lambda>m.
              bind_exn (np_add X offs m) (\<lambda>bg.
                np_clip_above X bg (2 ^ depth (coeffs self) - 1))))
       else Inr (item2 d))"

text \<open>The branch \<^verbatim>\<open>if bgImages is not None\<close> of \<^verbatim>\<open>_correctDarkCurrent\<close>; here every
  array with three axes is a stack.\<close>

fun background :: "collab \<Rightarrow> nlf option \<Rightarrow> images \<Rightarrow> exn + pyobj" where
  "background X f (Seq xs) =
     (if length xs > 1
      then map_sum id (Ndarray \<circ> fst) (SingleTimeEffectDetection X (Seq xs) f)
      else map_sum id Ndarray (bind_exn (getitem xs 0) (imread X)))"
| "background X f (Single (Array a)) =
     (if length (shape a) = 3
      then (if hd (shape a) > 1
            then map_sum id (Ndarray \<circ> fst) (SingleTimeEffectDetection X (Single (Array a)) f)
            else map_sum id Ndarray (bind_exn (first_slice a) (imread X)))
      else map_sum id Ndarray (imread X (Array a)))"
| "background X f (Single (Path p)) = map_sum id Ndarray (imread X (Path p))"

text \<open>
  The stage methods work on the array \<open>img\<close> of the caller, some of them in place.
  Each returns the content of that array after the call, together with the exception it
  raised (methods that return nothing) or with its result.
\<close>

definition correctDarkCurrent ::
  "collab \<Rightarrow> clock \<Rightarrow> ndarray \<Rightarrow> real option \<Rightarrow> images option \<Rightarrow> string option \<Rightarrow> camera
     \<Rightarrow> (ndarray \<times> exn option) \<times> camera" where
  "correctDarkCurrent X clk img exposuretime bgImages date self =
     (case (case bgImages of
              Some b \<Rightarrow> background X (noise_level_function self) b
            | None \<Rightarrow> calcDarkCurrent X clk exposuretime date self) of
        Inl e \<Rightarrow> ((img, Some e), self)
      | Inr bg \<Rightarrow>
          (let self1 = self\<lparr>temp_bg := Some bg\<rparr>
           in case np_isub X img bg of
                Inl e \<Rightarrow> ((img, Some e), self1)
              | Inr img' \<Rightarrow> ((img', None), self1)))"

definition correctVignetting ::
  "collab \<Rightarrow> clock \<Rightarrow> ndarray \<Rightarrow> string option \<Rightarrow> string option \<Rightarrow> camera
     \<Rightarrow> ndarray \<times> exn option" where
  "correctVignetting X clk img light_spectrum date self =
     (case getCoeff clk FlatField light_spectrum date (coeffs self) of
        Inl e \<Rightarrow> (img, Some e)
      | Inr None \<Rightarrow> (img, None)
      | Inr (Some d) \<Rightarrow>
          (case np_idiv_nonzero X img (item2 d) of
             Inl e \<Rightarrow> (img, Some e)
           | Inr img' \<Rightarrow> (img', None)))"

definition correctArtefacts :: "collab \<Rightarrow> ndarray \<Rightarrow> real \<Rightarrow> ndarray \<times> (exn + ndarray)" where
  "correctArtefacts X img threshold =
     (img, bind_exn (nan_to_num X img) (\<lambda>copy. medianThreshold X copy threshold))"

definition correctBlur ::
  "collab \<Rightarrow> clock \<Rightarrow> ndarray \<Rightarrow> string option \<Rightarrow> string option \<Rightarrow> camera
     \<Rightarrow> ndarray \<times> (exn + ndarray)" where
  "correctBlur X clk img light_spectrum date self =
     (case getCoeff clk PSF light_spectrum date (coeffs self) of
        Inl e \<Rightarrow> (img, Inl e)
      | Inr None \<Rightarrow> (img, Inr img)
      | Inr (Some d) \<Rightarrow>
          (case np_max X img of
             Inl e \<Rightarrow> (img, Inl e)
           | Inr mx \<Rightarrow>
               (case np_idiv X img mx of
                  Inl e \<Rightarrow> (img, Inl e)
                | Inr image1 \<Rightarrow>
                    (image1,
                     bind_exn (getCoeff clk Balance light_spectrum date (coeffs self)) (\<lambda>bal.
                     bind_exn (case bal of
                                 None \<Rightarrow> unsupervised_wiener X image1 (item2 d)
                               | Some b \<Rightarrow> wiener X image1 (item2 d) (item2 b))
                       (\<lambda>deconvolved. clip_rescale X deconvolved mx))))))"

definition getLens ::
  "clock \<Rightarrow> string option \<Rightarrow> string option \<Rightarrow> camera \<Rightarrow> exn + pyobj option" where
  "getLens clk light_spectrum date self =
     map_sum id (map_option item2) (getCoeff clk Lens light_spectrum date (coeffs self))"

definition correctLens ::
  "collab \<Rightarrow> clock \<Rightarrow> ndarray \<Rightarrow> string option \<Rightarrow> string option \<Rightarrow> bool \<Rightarrow> camera
     \<Rightarrow> ndarray \<times> (exn + ndarray)" where
  "correctLens X clk img light_spectrum date keep_size self =
     (img,
      bind_exn (getLens clk light_spectrum date self) (\<lambda>lns.
        case lns of None \<Rightarrow> Inr img | Some k \<Rightarrow> lens_correct X k img keep_size))"

definition correctNoise :: "collab \<Rightarrow> ndarray \<Rightarrow> exn + ndarray" where
  "correctNoise X img = denoise_nl_means X img"

text \<open>
  The five \<^verbatim>\<open>try\<close> blocks of \<^verbatim>\<open>correct\<close>. The subscript \<^verbatim>\<open>date[...]\<close> is evaluated inside
  the block. After a block the name \<open>img\<close> is bound to the result where the block
  assigns one and the call returned, and to the caller's array otherwise.
\<close>

definition try_darkCurrent ::
  "collab \<Rightarrow> clock \<Rightarrow> ndarray \<Rightarrow> real option \<Rightarrow> images option \<Rightarrow> date_arg \<Rightarrow> camera
     \<Rightarrow> ndarray \<times> camera" where
  "try_darkCurrent X clk img exposure_time bgImages date self =
     (case date_getitem date ''dark current'' of
        Inl e \<Rightarrow> (img, self)
      | Inr d \<Rightarrow>
          (case correctDarkCurrent X clk img exposure_time bgImages d self of
             ((img', r), self') \<Rightarrow> (img', self')))"

definition try_vignetting ::
  "collab \<Rightarrow> clock \<Rightarrow> ndarray \<Rightarrow> string option \<Rightarrow> date_arg \<Rightarrow> camera \<Rightarrow> ndarray" where
  "try_vignetting X clk img light_spectrum date self =
     (case date_getitem date ''flat field'' of
        Inl e \<Rightarrow> img
      | Inr d \<Rightarrow> fst (correctVignetting X clk img light_spectrum d self))"

definition try_artefacts :: "collab \<Rightarrow> ndarray \<Rightarrow> real \<Rightarrow> ndarray" where
  "try_artefacts X img threshold =
     (case correctArtefacts X img threshold of
        (img', Inl e) \<Rightarrow> img'
      | (img', Inr out) \<Rightarrow> out)"

definition try_blur ::
  "collab \<Rightarrow> clock \<Rightarrow> ndarray \<Rightarrow> string option \<Rightarrow> date_arg \<Rightarrow> camera \<Rightarrow> ndarray" where
  "try_blur X clk img light_spectrum date self =
     (case date_getitem date ''psf'' of
        Inl e \<Rightarrow> img
      | Inr d \<Rightarrow>
          (case correctBlur X clk img light_spectrum d self of
             (img', Inl e) \<Rightarrow> img'
           | (img', Inr out) \<Rightarrow> out))"

definition try_lens ::
  "collab \<Rightarrow> clock \<Rightarrow> ndarray \<Rightarrow> string option \<Rightarrow> date_arg \<Rightarrow> bool \<Rightarrow> camera \<Rightarrow> ndarray" where
  "try_lens X clk img light_spectrum date keep_size self =
     (case date_getitem date ''lens'' of
        Inl e \<Rightarrow> img
      | Inr d \<Rightarrow>
          (case correctLens X clk img light_spectrum d keep_size self of
             (img', Inl e) \<Rightarrow> img'
           | (img', Inr out) \<Rightarrow> out))"

definition correct ::
  "collab \<Rightarrow> clock \<Rightarrow> images \<Rightarrow> images option \<Rightarrow> real option \<Rightarrow> string option \<Rightarrow> real \<Rightarrow> bool
     \<Rightarrow> date_arg \<Rightarrow> bool \<Rightarrow> bool \<Rightarrow> camera \<Rightarrow> (exn + ndarray) \<times> camera" where
  "correct X clk imgs bgImages exposure_time light_spectrum threshold keep_size date deblur
      denoise self =
     (let light =
            (case light_spectrum of
               None \<Rightarrow> (case light_spectra (coeffs self) of [] \<Rightarrow> None | k # _ \<Rightarrow> Some k)
             | Some k \<Rightarrow> Some k)
      in case acquire X clk imgs date self of
           (Inl e, self1) \<Rightarrow> (Inl e, self1)
         | (Inr img, self1) \<Rightarrow>
             (case checkShape (Ndarray img) (coeffs self1) of
                Inl e \<Rightarrow> (Inl e, self1)
              | Inr c1 \<Rightarrow>
                  (let self2 = self1\<lparr>coeffs := c1, last_light_spectrum := light\<rparr>;
                       (image2, self3) =
                          try_darkCurrent X clk img exposure_time bgImages date self2;
                       image3 = try_vignetting X clk image2 light date self3;
                       image4 = (if threshold > 0 then try_artefacts X image3 threshold
                                 else image3);
                       image5 = (if deblur then try_blur X clk image4 light date self3
                                 else image4);
                       image6 = try_lens X clk image5 light date keep_size self3
                   in if denoise then (correctNoise X image6, self3)
                      else (Inr image6, self3))))"

section \<open>Properties of the store, and a driver for the add operations\<close>

text \<open>Newest first: no record is dated after one that precedes it. The strict variant
  also excludes equal dates.\<close>

definition descending :: "calib list \<Rightarrow> bool" where
  "descending l = sorted_wrt (\<lambda>a b. item0 b \<le> item0 a) l"

definition strictly_descending :: "calib list \<Rightarrow> bool" where
  "strictly_descending l = sorted_wrt (\<lambda>a b. item0 b < item0 a) l"

definition dict_all :: "('v \<Rightarrow> bool) \<Rightarrow> 'v dict \<Rightarrow> bool" where
  "dict_all P f = list_all (\<lambda>kv. P (snd kv)) f"

definition all_sequences :: "(calib list \<Rightarrow> bool) \<Rightarrow> coeffs \<Rightarrow> bool" where
  "all_sequences P c \<longleftrightarrow>
     P (dark_current c) \<and> P (noise c) \<and> dict_all P (flat_field c) \<and> dict_all P (lens c) \<and>
     dict_all P (psf c) \<and> dict_all P (balance c)"

text \<open>The records of a sequence dated on or after a date.\<close>

definition on_or_after :: "struct_time \<Rightarrow> calib list \<Rightarrow> calib list" where
  "on_or_after d l = filter (\<lambda>n. d \<le> item0 n) l"

text \<open>
  The sequence a query for a category and a spectrum is answered from, in the words of
  the specification of \<^verbatim>\<open>getCoeff\<close>: the sequence itself when the category is not
  spectrum-keyed; else the sequence of the requested spectrum; else, when that spectrum
  is missing, the sequence of the first inserted spectrum; none when the category has
  no spectrum at all.
\<close>

definition resolved_sequence :: "coeffs \<Rightarrow> category \<Rightarrow> string option \<Rightarrow> calib list option" where
  "resolved_sequence c nm light =
     (case coeffs_getitem c nm of
        Flat l \<Rightarrow> Some l
      | BySpectrum d \<Rightarrow>
          (case (case light of None \<Rightarrow> None | Some k \<Rightarrow> map_of d k) of
             Some l \<Rightarrow> Some l
           | None \<Rightarrow> (case d of [] \<Rightarrow> None | kl # _ \<Rightarrow> Some (snd kl))))"

text \<open>A sequence of calls of add operations, each at its own moment; a call that raises
  leaves the state it reached, and the next call goes on from there.\<close>

datatype add_op =
    AddDarkCurrent pyobj pyobj "string option" string pyobj
  | AddNoise pyobj "string option" string pyobj
  | AddDeconvolutionBalance pyobj "string option" string string
  | AddPSF pyobj "string option" string string
  | AddFlatField pyobj "string option" string pyobj string
  | AddLens lens_arg "string option" string string

fun apply_add ::
  "(string \<Rightarrow> exn + pyobj) \<Rightarrow> clock \<Rightarrow> add_op \<Rightarrow> coeffs \<Rightarrow> exn option \<times> coeffs" where
  "apply_add rd clk (AddDarkCurrent slope intercept date info error) c =
     addDarkCurrent clk slope intercept date info error c"
| "apply_add rd clk (AddNoise nlf_coeff date info error) c =
     addNoise clk nlf_coeff date info error c"
| "apply_add rd clk (AddDeconvolutionBalance bal date info light_spectrum) c =
     addDeconvolutionBalance clk bal date info light_spectrum c"
| "apply_add rd clk (AddPSF p date info light_spectrum) c =
     addPSF clk p date info light_spectrum c"
| "apply_add rd clk (AddFlatField arr date info error light_spectrum) c =
     addFlatField clk arr date info error light_spectrum c"
| "apply_add rd clk (AddLens lns date info light_spectrum) c =
     addLens rd clk lns date info light_spectrum c"

fun run_adds ::
  "(string \<Rightarrow> exn + pyobj) \<Rightarrow> (clock \<times> add_op) list \<Rightarrow> coeffs \<Rightarrow> coeffs" where
  "run_adds rd [] c = c"
| "run_adds rd ((clk, a) # ops) c = run_adds rd ops (snd (apply_add rd clk a c))"

text \<open>
  The date-lookup rule in the words of the specification: the first record, scanning
  from newest to oldest, whose date is not after the requested date; the oldest record
  (the last of the sequence) when no record qualifies or the date is invalid or absent
  (\<open>None\<close>).
\<close>

definition spec_date_lookup :: "struct_time option \<Rightarrow> calib list \<Rightarrow> calib" where
  "spec_date_lookup d l =
     (case d of
        None \<Rightarrow> last l
      | Some t \<Rightarrow> (case find (\<lambda>n. item0 n \<le> t) l of Some r \<Rightarrow> r | None \<Rightarrow> last l))"

text \<open>
  \<open>imgs\<close> is one image \<open>src\<close>: a list or tuple that holds just \<open>src\<close>, or \<open>src\<close>
  itself when it is a file name or an array that \<^verbatim>\<open>correct\<close> does not take for a stack.
\<close>

definition one_image :: "images \<Rightarrow> source \<Rightarrow> bool" where
  "one_image imgs src =
     (case imgs of
        Seq xs \<Rightarrow> xs = [src]
      | Single (Path p) \<Rightarrow> src = Path p
      | Single (Array a) \<Rightarrow>
          src = Array a \<and> \<not> (length (shape a) = 3 \<and> last (shape a) \<notin> {3, 4}))"

text \<open>A category holds no record: every one of its sequences is empty.\<close>

definition no_records :: "calib list dict \<Rightarrow> bool" where
  "no_records f = dict_all (\<lambda>l. l = []) f"

text \<open>
  What a call of an add operation is about: the category it adds to, the spectrum (none
  for the two categories without spectra), its date argument, the arrays whose shape it
  checks, in the order of the checks, and the record \<^verbatim>\<open>[date, info, data]\<close> or
  \<^verbatim>\<open>[date, info, data, error]\<close> it stores once the date is \<open>d\<close>.
\<close>

fun op_category :: "add_op \<Rightarrow> category" where
  "op_category (AddDarkCurrent slope intercept date info error) = DarkCurrent"
| "op_category (AddNoise nlf_coeff date info error) = Noise"
| "op_category (AddDeconvolutionBalance bal date info light_spectrum) = Balance"
| "op_category (AddPSF p date info light_spectrum) = PSF"
| "op_category (AddFlatField arr date info error light_spectrum) = FlatField"
| "op_category (AddLens lns date info light_spectrum) = Lens"

fun op_light :: "add_op \<Rightarrow> string option" where
  "op_light (AddDarkCurrent slope intercept date info error) = None"
| "op_light (AddNoise nlf_coeff date info error) = None"
| "op_light (AddDeconvolutionBalance bal date info light_spectrum) = Some light_spectrum"
| "op_light (AddPSF p date info light_spectrum) = Some light_spectrum"
| "op_light (AddFlatField arr date info error light_spectrum) = Some light_spectrum"
| "op_light (AddLens lns date info light_spectrum) = Some light_spectrum"

fun op_date :: "add_op \<Rightarrow> string option" where
  "op_date (AddDarkCurrent slope intercept date info error) = date"
| "op_date (AddNoise nlf_coeff date info error) = date"
| "op_date (AddDeconvolutionBalance bal date info light_spectrum) = date"
| "op_date (AddPSF p date info light_spectrum) = date"
| "op_date (AddFlatField arr date info error light_spectrum) = date"
| "op_date (AddLens lns date info light_spectrum) = date"

fun op_arrays :: "add_op \<Rightarrow> pyobj list" where
  "op_arrays (AddDarkCurrent slope intercept date info error) = [slope, intercept]"
| "op_arrays (AddFlatField arr date info error light_spectrum) = [arr]"
| "op_arrays a = []"

fun new_record :: "(string \<Rightarrow> exn + pyobj) \<Rightarrow> struct_time \<Rightarrow> add_op \<Rightarrow> calib" where
  "new_record rd d (AddDarkCurrent slope intercept date info error) =
     Calib4 d info (if intercept = PyNone then slope else Tuple slope intercept) error"
| "new_record rd d (AddNoise nlf_coeff date info error) = Calib4 d info nlf_coeff error"
| "new_record rd d (AddDeconvolutionBalance bal date info light_spectrum) = Calib3 d info bal"
| "new_record rd d (AddPSF p date info light_spectrum) = Calib3 d info p"
| "new_record rd d (AddFlatField arr date info error light_spectrum) = Calib4 d info arr error"
| "new_record rd d (AddLens lns date info light_spectrum) =
     Calib3 d info
       (case lns of
          LensInstance k \<Rightarrow> k
        | LensFile p \<Rightarrow> (case rd p of Inl e \<Rightarrow> PyNone | Inr k \<Rightarrow> k))"

text \<open>The sequence stored for a category and a spectrum; empty when the category has
  no such spectrum.\<close>

definition seq_at :: "coeffs \<Rightarrow> category \<Rightarrow> string option \<Rightarrow> calib list" where
  "seq_at c nm light = (case coeffs_seq c nm light of Inl e \<Rightarrow> [] | Inr l \<Rightarrow> l)"

text \<open>
  When an add operation goes through, in the words of the specification: the date is
  valid; every array it checks agrees with the reference shape on the first two
  dimensions, where the first array seen sets the reference shape; a lens given as a
  file can be read.
\<close>

fun shapes_agree :: "nat list option \<Rightarrow> pyobj list \<Rightarrow> bool" where
  "shapes_agree s [] = True"
| "shapes_agree s (Ndarray a # xs) =
     (case s of
        None \<Rightarrow> shapes_agree (Some (shape a)) xs
      | Some r \<Rightarrow> take 2 r = take 2 (shape a) \<and> shapes_agree s xs)"
| "shapes_agree s (x # xs) = shapes_agree s xs"

fun lens_readable :: "(string \<Rightarrow> exn + pyobj) \<Rightarrow> add_op \<Rightarrow> bool" where
  "lens_readable rd (AddLens (LensFile p) date info light_spectrum) =
     (case rd p of Inl e \<Rightarrow> False | Inr k \<Rightarrow> True)"
| "lens_readable rd a = True"

definition add_accepted :: "(string \<Rightarrow> exn + pyobj) \<Rightarrow> clock \<Rightarrow> add_op \<Rightarrow> coeffs \<Rightarrow> bool" where
  "add_accepted rd clk a c \<longleftrightarrow>
     (case toDate clk (op_date a) of Inl e \<Rightarrow> False | Inr d \<Rightarrow> True) \<and>
     shapes_agree (coeffs_shape c) (op_arrays a) \<and> lens_readable rd a"









text \<open>The deblur stage, run on \<open>img\<close>, raises after it has changed the array it was
  given.\<close>

definition blur_fails_late ::
  "collab \<Rightarrow> clock \<Rightarrow> ndarray \<Rightarrow> string option \<Rightarrow> date_arg \<Rightarrow> camera \<Rightarrow> bool" where
  "blur_fails_late X clk img light date self =
     (case date_getitem date ''psf'' of
        Inl e \<Rightarrow> False
      | Inr d \<Rightarrow>
          (case correctBlur X clk img light d self of
             (img', Inl e) \<Rightarrow> img' \<noteq> img
           | (img', Inr out) \<Rightarrow> False))"

section \<open>Sample data\<close>

text \<open>
  Four date strings in DATE_FORMAT with the tuples \<^verbatim>\<open>time.strptime\<close> returns for them, a
  clock that parses these four and reads 3 Nov 2026, 12:00, and a reader of lens files
  that knows no file.
\<close>

definition s_mar :: string where "s_mar = ''01 Mar 20 - 00:00''"
definition s_feb :: string where "s_feb = ''01 Feb 20 - 00:00''"
definition s_jan :: string where "s_jan = ''01 Jan 20 - 00:00''"
definition s_2019 :: string where "s_2019 = ''01 Jan 19 - 00:00''"

definition t_mar :: struct_time where "t_mar = (2020, 3, 1, 0, 0, 0, 6, 61, - 1)"
definition t_feb :: struct_time where "t_feb = (2020, 2, 1, 0, 0, 0, 5, 32, - 1)"
definition t_jan :: struct_time where "t_jan = (2020, 1, 1, 0, 0, 0, 2, 1, - 1)"
definition t_2019 :: struct_time where "t_2019 = (2019, 1, 1, 0, 0, 0, 1, 1, - 1)"

definition sample_clock :: clock where
  "sample_clock =
     \<lparr> localtime = (2026, 11, 3, 12, 0, 0, 1, 307, 0),
       strptime = map_of [(s_mar, t_mar), (s_feb, t_feb), (s_jan, t_jan), (s_2019, t_2019)] \<rparr>"

definition no_file :: "string \<Rightarrow> exn + pyobj" where
  "no_file p = Inl Exception"

text \<open>Two noise records, added oldest first.\<close>

definition noise_jan :: calib where "noise_jan = Calib4 t_jan ''january'' (Obj ''nlf a'') PyNone"
definition noise_mar :: calib where "noise_mar = Calib4 t_mar ''march'' (Obj ''nlf b'') PyNone"

definition two_noise :: coeffs where
  "two_noise = run_adds no_file
     [(sample_clock, AddNoise (Obj ''nlf a'') (Some s_jan) ''january'' PyNone),
      (sample_clock, AddNoise (Obj ''nlf b'') (Some s_mar) ''march'' PyNone)] init_coeffs"

text \<open>The same noise coefficients added twice for the same date.\<close>

definition same_date :: coeffs where
  "same_date = run_adds no_file
     [(sample_clock, AddNoise (Obj ''nlf a'') (Some s_jan) ''first'' PyNone),
      (sample_clock, AddNoise (Obj ''nlf a'') (Some s_jan) ''second'' PyNone)] init_coeffs"

text \<open>A profile with a January and a March record in every category, all for the
  spectrum 'visible'; arrays are 1 x 2.\<close>

definition arr12 :: "real \<Rightarrow> real \<Rightarrow> ndarray" where
  "arr12 x y = \<lparr> shape = [1, 2], elems = [x, y] \<rparr>"

definition full_ops :: "(clock \<times> add_op) list" where
  "full_ops =
     [(sample_clock, AddDarkCurrent (Ndarray (arr12 1 1)) PyNone (Some s_jan) ''jan'' PyNone),
      (sample_clock, AddDarkCurrent (Ndarray (arr12 2 2)) PyNone (Some s_mar) ''mar'' PyNone),
      (sample_clock, AddNoise (Obj ''nlf a'') (Some s_jan) ''jan'' PyNone),
      (sample_clock, AddNoise (Obj ''nlf b'') (Some s_mar) ''mar'' PyNone),
      (sample_clock, AddFlatField (Ndarray (arr12 1 1)) (Some s_jan) ''jan'' PyNone ''visible''),
      (sample_clock, AddFlatField (Ndarray (arr12 2 2)) (Some s_mar) ''mar'' PyNone ''visible''),
      (sample_clock, AddLens (LensInstance (Obj ''lens a'')) (Some s_jan) ''jan'' ''visible''),
      (sample_clock, AddLens (LensInstance (Obj ''lens b'')) (Some s_mar) ''mar'' ''visible''),
      (sample_clock, AddPSF (Ndarray (arr12 1 1)) (Some s_jan) ''jan'' ''visible''),
      (sample_clock, AddPSF (Ndarray (arr12 2 2)) (Some s_mar) ''mar'' ''visible''),
      (sample_clock, AddDeconvolutionBalance (Float 1) (Some s_jan) ''jan'' ''visible''),
      (sample_clock, AddDeconvolutionBalance (Float 2) (Some s_mar) ''mar'' ''visible'')]"

definition full_store :: coeffs where
  "full_store = run_adds no_file full_ops init_coeffs"

text \<open>Two lens records for two spectra, and then the record of the first spectrum
  deleted.\<close>

definition lens_deleted :: coeffs where
  "lens_deleted =
     snd (deleteCoeff sample_clock Lens (Some s_jan) (Some ''visible'')
       (run_adds no_file
          [(sample_clock, AddLens (LensInstance (Obj ''lens a'')) (Some s_jan) ''a'' ''visible''),
           (sample_clock, AddLens (LensInstance (Obj ''lens b'')) (Some s_jan) ''b'' ''UV'')]
          init_coeffs))"

text \<open>One lens record, for 'visible'.\<close>

definition lens_visible :: coeffs where
  "lens_visible = run_adds no_file
     [(sample_clock, AddLens (LensInstance (Obj ''lens a'')) (Some s_jan) ''a'' ''visible'')]
     init_coeffs"

text \<open>A profile whose reference shape is 2 x 2.\<close>

definition shaped :: coeffs where
  "shaped = init_coeffs\<lparr>coeffs_shape := Some [2, 2]\<rparr>"

text \<open>
  Collaborators to run the pipeline with on the arrays below: images are given as
  arrays and read as they are, subtraction and division are elementwise on arrays of
  one shape, and an array minus a tuple of two arrays of its own shape raises numpy's
  ValueError (the operand does not broadcast to the shape of the output). The filters
  return their input.
\<close>

definition sample_read :: "source \<Rightarrow> exn + ndarray" where
  "sample_read s = (case s of Array a \<Rightarrow> Inr a | Path p \<Rightarrow> Inl Exception)"

definition sample_isub :: "ndarray \<Rightarrow> pyobj \<Rightarrow> exn + ndarray" where
  "sample_isub a bg =
     (case bg of
        Ndarray b \<Rightarrow>
          (if shape b = shape a then Inr (a\<lparr>elems := map2 (-) (elems a) (elems b)\<rparr>)
           else Inl ValueError)
      | _ \<Rightarrow> Inl ValueError)"

definition sample_idiv_nonzero :: "ndarray \<Rightarrow> pyobj \<Rightarrow> exn + ndarray" where
  "sample_idiv_nonzero a d =
     (case d of
        Ndarray b \<Rightarrow>
          (if shape b = shape a
           then Inr (a\<lparr>elems := map2 (\<lambda>x y. if y \<noteq> 0 then x / y else x) (elems a) (elems b)\<rparr>)
           else Inl IndexError)
      | _ \<Rightarrow> Inl TypeError)"

definition sample_max :: "ndarray \<Rightarrow> exn + real" where
  "sample_max a = (case elems a of [] \<Rightarrow> Inl ValueError | x # xs \<Rightarrow> Inr (fold max xs x))"

definition sample_collab :: collab where
  "sample_collab =
     \<lparr> imread = sample_read, imread_float = sample_read,
       SingleTimeEffectDetection = (\<lambda>imgs f. Inl Exception),
       unpack_other = (\<lambda>x. Inl TypeError),
       np_mul = (\<lambda>a t. Inl TypeError),
       np_add = (\<lambda>a b. Inl TypeError),
       np_clip_above = (\<lambda>bg mx. Inl TypeError),
       np_isub = sample_isub,
       np_idiv_nonzero = sample_idiv_nonzero,
       nan_to_num = Inr,
       medianThreshold = (\<lambda>a t. Inr a),
       np_max = sample_max,
       np_idiv = (\<lambda>a mx. Inr (a\<lparr>elems := map (\<lambda>x. x / mx) (elems a)\<rparr>)),
       unsupervised_wiener = (\<lambda>a p. Inr a),
       wiener = (\<lambda>a p b. Inr a),
       clip_rescale = (\<lambda>a mx. Inr (a\<lparr>elems := map (\<lambda>x. max 0 x * mx) (elems a)\<rparr>)),
       lens_correct = (\<lambda>k a keep_size. Inr a),
       denoise_nl_means = Inr \<rparr>"

text \<open>A camera with one dark-current record that holds a slope and an intercept array,
  stored by \<^verbatim>\<open>addDarkCurrent(slope, intercept, date)\<close>.\<close>

definition dark_cam :: camera where
  "dark_cam = init_camera\<lparr>coeffs :=
     snd (addDarkCurrent sample_clock (Ndarray (arr12 1 2)) (Ndarray (arr12 10 20))
            (Some s_jan) [] PyNone init_coeffs)\<rparr>"

text \<open>A camera with a point spread function for 'visible' whose balance value has been
  added and deleted again.\<close>

definition psf_cam :: camera where
  "psf_cam = init_camera\<lparr>coeffs :=
     snd (deleteCoeff sample_clock Balance (Some s_jan) (Some ''visible'')
       (run_adds no_file
          [(sample_clock, AddPSF (Ndarray (arr12 1 1)) (Some s_jan) [] ''visible''),
           (sample_clock, AddDeconvolutionBalance (Float 1) (Some s_jan) [] ''visible'')]
          init_coeffs))\<rparr>"

text \<open>A fresh camera after one run of \<^verbatim>\<open>correct\<close> on a 2 x 2 image.\<close>

definition arr22 :: ndarray where
  "arr22 = \<lparr> shape = [2, 2], elems = [1, 2, 3, 4] \<rparr>"

definition used_cam :: camera where
  "used_cam =
     snd (correct sample_collab sample_clock (Single (Array arr22)) None None None 0 True
            (DateStr None) False False init_camera)"

text \<open>A profile with one flat field of shape 1 x 2 for 'visible'.\<close>

definition flat_visible :: coeffs where
  "flat_visible = run_adds no_file
     [(sample_clock, AddFlatField (Ndarray (arr12 1 1)) (Some s_jan) [] PyNone ''visible'')]
     init_coeffs"


text \<open>The profile with the January noise record only, and the call that adds the March
  record to it.\<close>

definition one_noise :: coeffs where
  "one_noise = run_adds no_file
     [(sample_clock, AddNoise (Obj ''nlf a'') (Some s_jan) ''january'' PyNone)] init_coeffs"

definition add_march :: add_op where
  "add_march = AddNoise (Obj ''nlf b'') (Some s_mar) ''march'' PyNone"

section \<open>The date index: lemmas\<close>

lemma insertDateIndex_takeWhile:
  "insertDateIndex d l = length (takeWhile (\<lambda>n. d \<le> item0 n) l)"
  by (induction l) (auto simp: not_less)

lemma insertDateIndex_le_length: "insertDateIndex d l \<le> length l"
  by (induction l) auto

lemma descending_takeWhile:
  "descending l \<Longrightarrow> takeWhile (\<lambda>n. d \<le> item0 n) l = on_or_after d l"
proof (induction l)
  case Nil
  show ?case by (simp add: on_or_after_def)
next
  case (Cons a l)
  from Cons.prems have below: "\<forall>x\<in>set l. item0 x \<le> item0 a" and desc: "descending l"
    by (simp_all add: descending_def)
  show ?case
  proof (cases "d \<le> item0 a")
    case True
    with Cons.IH [OF desc] show ?thesis by (simp add: on_or_after_def)
  next
    case False
    with below have "\<forall>x\<in>set l. \<not> d \<le> item0 x" by (meson order_trans)
    then have "filter (\<lambda>n. d \<le> item0 n) l = []" by (simp add: filter_empty_conv)
    with False show ?thesis by (simp add: on_or_after_def)
  qed
qed

lemma insertDateIndex_on_or_after:
  "descending l \<Longrightarrow> insertDateIndex d l = length (on_or_after d l)"
  by (simp add: insertDateIndex_takeWhile descending_takeWhile)

lemma nth_on_or_after:
  assumes "descending l" and "i < length (on_or_after d l)"
  shows "on_or_after d l ! i = l ! i"
proof -
  have "takeWhile (\<lambda>n. d \<le> item0 n) l ! i = l ! i"
    using assms by (intro takeWhile_nth) (simp add: descending_takeWhile)
  then show ?thesis using assms(1) by (simp add: descending_takeWhile)
qed

lemma getitem_0: "l \<noteq> [] \<Longrightarrow> getitem l 0 = Inr (hd l)"
  by (cases l) (simp_all add: getitem_def)

lemma getitem_Nil: "getitem [] i = Inl IndexError"
  by (simp add: getitem_def Let_def)

lemma getitem_pred:
  assumes "k \<noteq> 0" and "k \<le> length l"
  shows "getitem l (int k - 1) = Inr (l ! (k - 1))"
proof -
  from assms have "0 \<le> int k - 1" and "int k - 1 < int (length l)" by simp_all
  moreover have "nat (int k - 1) = k - 1" by (simp add: nat_diff_distrib')
  ultimately show ?thesis by (simp add: getitem_def Let_def)
qed

lemma toDate_error: "toDate clk date = Inl e \<Longrightarrow> e = ValueError"
  by (auto simp: toDate_def split: option.splits)

lemma getFromDate_Nil: "getFromDate clk [] date = Inl IndexError"
  by (auto simp: getFromDate_def getitem_Nil Let_def split: sum.splits dest: toDate_error)

lemma getFromDate_invalid:
  assumes "toDate clk date = Inl e" and "l \<noteq> []"
  shows "getFromDate clk l date = Inr (hd l)"
  using assms toDate_error [OF assms(1)] by (simp add: getFromDate_def getitem_0)

lemma getFromDate_valid:
  assumes "toDate clk date = Inr d" and "l \<noteq> []" and "descending l"
  shows "getFromDate clk l date =
           Inr (if on_or_after d l = [] then hd l else l ! (length (on_or_after d l) - 1))"
proof -
  let ?k = "length (on_or_after d l)"
  have k: "insertDateIndex d l = ?k" by (rule insertDateIndex_on_or_after [OF assms(3)])
  have kl: "?k \<le> length l" using insertDateIndex_le_length [of d l] k by simp
  show ?thesis
  proof (cases "?k = 0")
    case True
    then show ?thesis using assms(1,2) k by (simp add: getFromDate_def getitem_0)
  next
    case False
    have "int ?k - 1 \<noteq> - 1" using False by simp
    then show ?thesis
      using assms(1) k False getitem_pred [OF False kl] by (simp add: getFromDate_def)
  qed
qed

lemma last_on_or_after:
  assumes "descending l" and "on_or_after d l \<noteq> []"
  shows "last (on_or_after d l) = l ! (length (on_or_after d l) - 1)"
proof -
  have "last (on_or_after d l) = on_or_after d l ! (length (on_or_after d l) - 1)"
    by (rule last_conv_nth [OF assms(2)])
  also have "\<dots> = l ! (length (on_or_after d l) - 1)"
    using assms(2) by (intro nth_on_or_after [OF assms(1)]) simp
  finally show ?thesis .
qed

lemma getFromDate_member:
  assumes "l \<noteq> []"
  shows "\<exists>r\<in>set l. getFromDate clk l date = Inr r"
proof (cases "toDate clk date")
  case (Inl e)
  then show ?thesis
    using assms toDate_error [OF Inl] by (cases l) (simp_all add: getFromDate_def getitem_def)
next
  case (Inr d)
  let ?k = "insertDateIndex d l"
  have kl: "?k \<le> length l" by (rule insertDateIndex_le_length)
  show ?thesis
  proof (cases "?k = 0")
    case True
    then show ?thesis using Inr assms by (cases l) (simp_all add: getFromDate_def getitem_def)
  next
    case False
    then have "?k - 1 < length l" using kl by arith
    moreover have "getFromDate clk l date = Inr (l ! (?k - 1))"
      using Inr False getitem_pred [OF False kl] by (simp add: getFromDate_def)
    ultimately show ?thesis by auto
  qed
qed

lemma getCoeff_resolved:
  "getCoeff clk nm light date c =
     (case resolved_sequence c nm light of
        None \<Rightarrow> Inr None
      | Some l \<Rightarrow> map_sum id Some (getFromDate clk l date))"
  by (auto simp: getCoeff_def resolved_sequence_def dict_getitem_def
           split: table.splits option.splits list.splits sum.splits)

section \<open>Sample data: values\<close>

lemma two_noise_value: "noise two_noise = [noise_mar, noise_jan]"
  by code_simp

lemma two_noise_descending: "descending [noise_mar, noise_jan]"
  by (simp add: descending_def noise_mar_def noise_jan_def t_mar_def t_jan_def)

lemma sample_toDate:
  "toDate sample_clock (Some s_mar) = Inr t_mar"
  "toDate sample_clock (Some s_feb) = Inr t_feb"
  "toDate sample_clock (Some s_jan) = Inr t_jan"
  "toDate sample_clock (Some s_2019) = Inr t_2019"
  "toDate sample_clock None = Inr (2026, 11, 3, 12, 0, 0, 1, 307, 0)"
  "toDate sample_clock (Some ''2020-02-01'') = Inl ValueError"
  by (simp_all add: toDate_def sample_clock_def s_jan_def s_mar_def s_feb_def s_2019_def)

section \<open>C1: the date lookup of getCoeff\<close>

text \<open>
  C1, as the code has it. For a non-empty sequence sorted newest first: when the
  requested date is valid (an omitted date is the current time) and some record is
  dated on or after it, \<open>getCoeff\<close> returns the oldest of these records, the last
  record that is not before the requested date; when every record is older than the
  requested date, or the date string is invalid, it returns the newest record, the
  first of the sequence.
\<close>

theorem getCoeff_date_lookup:
  assumes "resolved_sequence c nm light = Some l" and "l \<noteq> []" and "descending l"
  shows "getCoeff clk nm light date c =
           Inr (Some (case toDate clk date of
                        Inl e \<Rightarrow> hd l
                      | Inr d \<Rightarrow> (if on_or_after d l = [] then hd l
                                  else last (on_or_after d l))))"
proof (cases "toDate clk date")
  case (Inl e)
  then show ?thesis
    using assms(1) getFromDate_invalid [OF Inl assms(2)] by (simp add: getCoeff_resolved)
next
  case (Inr d)
  then show ?thesis
    using assms(1) getFromDate_valid [OF Inr assms(2,3)] last_on_or_after [OF assms(3), of d]
    by (simp add: getCoeff_resolved)
qed

text \<open>On the records dated 1 Mar 2020 and 1 Jan 2020: a request for 1 Feb 2020 returns
  the March record, a request for 1 Jan 2019 the January record, a request with no
  date, made in 2026, the March record, and an unparsable date string the March
  record.\<close>

theorem getCoeff_date_lookup_witness:
  "resolved_sequence two_noise Noise None = Some [noise_mar, noise_jan] \<and>
   [noise_mar, noise_jan] \<noteq> [] \<and> descending [noise_mar, noise_jan] \<and>
   getCoeff sample_clock Noise None (Some s_feb) two_noise = Inr (Some noise_mar) \<and>
   getCoeff sample_clock Noise None (Some s_2019) two_noise = Inr (Some noise_jan) \<and>
   getCoeff sample_clock Noise None None two_noise = Inr (Some noise_mar) \<and>
   getCoeff sample_clock Noise None (Some ''2020-02-01'') two_noise = Inr (Some noise_mar)"
proof -
  have r: "resolved_sequence two_noise Noise None = Some [noise_mar, noise_jan]"
    by (simp add: resolved_sequence_def two_noise_value)
  have n: "[noise_mar, noise_jan] \<noteq> []" by simp
  note g = getCoeff_date_lookup [OF r n two_noise_descending, of sample_clock]
  have "getCoeff sample_clock Noise None (Some s_feb) two_noise = Inr (Some noise_mar)"
    using g [of "Some s_feb"]
    by (simp add: sample_toDate on_or_after_def noise_mar_def noise_jan_def t_mar_def
          t_jan_def t_feb_def)
  moreover have "getCoeff sample_clock Noise None (Some s_2019) two_noise = Inr (Some noise_jan)"
    using g [of "Some s_2019"]
    by (simp add: sample_toDate on_or_after_def noise_mar_def noise_jan_def t_mar_def
          t_jan_def t_2019_def)
  moreover have "getCoeff sample_clock Noise None None two_noise = Inr (Some noise_mar)"
    using g [of None]
    by (simp add: sample_toDate on_or_after_def noise_mar_def noise_jan_def t_mar_def
          t_jan_def)
  moreover have "getCoeff sample_clock Noise None (Some ''2020-02-01'') two_noise =
      Inr (Some noise_mar)"
    using g [of "Some ''2020-02-01''"] by (simp add: sample_toDate)
  ultimately show ?thesis using r two_noise_descending by simp
qed

text \<open>The rule of the claim selects the January record for a request for 1 Feb 2020;
  \<open>getCoeff\<close> returns the March record.\<close>

theorem getCoeff_date_lookup_counterexample:
  "noise two_noise = [noise_mar, noise_jan] \<and>
   spec_date_lookup (Some t_feb) (noise two_noise) = noise_jan \<and>
   getCoeff sample_clock Noise None (Some s_feb) two_noise = Inr (Some noise_mar) \<and>
   noise_mar \<noteq> noise_jan"
proof -
  have "spec_date_lookup (Some t_feb) [noise_mar, noise_jan] = noise_jan"
    by (simp add: spec_date_lookup_def noise_mar_def noise_jan_def t_mar_def t_jan_def
          t_feb_def)
  moreover have "getCoeff sample_clock Noise None (Some s_feb) two_noise = Inr (Some noise_mar)"
    by (simp add: getCoeff_def two_noise_value getFromDate_def sample_toDate getitem_def
          noise_mar_def noise_jan_def t_mar_def t_jan_def t_feb_def)
  moreover have "noise_mar \<noteq> noise_jan"
    by (simp add: noise_mar_def noise_jan_def t_mar_def t_jan_def)
  ultimately show ?thesis by (simp add: two_noise_value)
qed

section \<open>C5: what getCoeff returns and when it raises\<close>

text \<open>
  C5, as the code has it. For each of the six categories, every spectrum and every date
  (valid, invalid or omitted), \<open>getCoeff\<close> returns none exactly when the category is
  spectrum-keyed and holds no spectrum at all; it raises IndexError when the sequence
  the query resolves to is empty; otherwise it returns a record of that sequence.
\<close>

theorem getCoeff_outcomes:
  "(case resolved_sequence c nm light of
      None \<Rightarrow> coeffs_getitem c nm = BySpectrum [] \<and> getCoeff clk nm light date c = Inr None
    | Some l \<Rightarrow>
        if l = [] then getCoeff clk nm light date c = Inl IndexError
        else (\<exists>r\<in>set l. getCoeff clk nm light date c = Inr (Some r)))"
proof (cases "resolved_sequence c nm light")
  case None
  then have "coeffs_getitem c nm = BySpectrum []"
    by (auto simp: resolved_sequence_def split: table.splits option.splits list.splits)
  with None show ?thesis by (simp add: getCoeff_resolved)
next
  case (Some l)
  show ?thesis
  proof (cases "l = []")
    case True
    with Some show ?thesis by (simp add: getCoeff_resolved getFromDate_Nil)
  next
    case False
    from getFromDate_member [OF False] obtain r
      where "r \<in> set l" and "getFromDate clk l date = Inr r" by blast
    with Some False show ?thesis by (auto simp: getCoeff_resolved)
  qed
qed

text \<open>A fresh profile has no lens spectrum and an empty dark-current sequence; the
  profile with two noise records answers with one of them.\<close>

theorem getCoeff_outcomes_witness:
  "getCoeff sample_clock Lens (Some ''IR'') None init_coeffs = Inr None \<and>
   getCoeff sample_clock DarkCurrent None None init_coeffs = Inl IndexError \<and>
   (\<exists>r\<in>set [noise_mar, noise_jan].
      getCoeff sample_clock Noise None (Some s_feb) two_noise = Inr (Some r))"
proof -
  have "resolved_sequence init_coeffs Lens (Some ''IR'') = None"
    by (simp add: resolved_sequence_def init_coeffs_def)
  then have a: "getCoeff sample_clock Lens (Some ''IR'') None init_coeffs = Inr None"
    using getCoeff_outcomes [where c = init_coeffs and nm = Lens and light = "Some ''IR''" and clk = sample_clock
        and date = None] by simp
  have "resolved_sequence init_coeffs DarkCurrent None = Some []"
    by (simp add: resolved_sequence_def init_coeffs_def)
  then have b: "getCoeff sample_clock DarkCurrent None None init_coeffs = Inl IndexError"
    using getCoeff_outcomes [where c = init_coeffs and nm = DarkCurrent and light = None
        and clk = sample_clock and date = None] by simp
  have "resolved_sequence two_noise Noise None = Some [noise_mar, noise_jan]"
    by (simp add: resolved_sequence_def two_noise_value)
  then have "\<exists>r\<in>set [noise_mar, noise_jan].
      getCoeff sample_clock Noise None (Some s_feb) two_noise = Inr (Some r)"
    using getCoeff_outcomes [where c = two_noise and nm = Noise and light = None and clk = sample_clock
        and date = "Some s_feb"] by simp
  with a b show ?thesis by simp
qed

text \<open>On a fresh profile \<^verbatim>\<open>getCoeff('dark current')\<close> raises IndexError; it does not
  return none.\<close>

theorem getCoeff_outcomes_counterexample:
  "dark_current init_coeffs = [] \<and>
   getCoeff sample_clock DarkCurrent None None init_coeffs = Inl IndexError \<and>
   getCoeff sample_clock DarkCurrent None None init_coeffs \<noteq> Inr None"
  by (simp add: init_coeffs_def getCoeff_def getFromDate_def sample_toDate getitem_def)

section \<open>C6: deleteCoeff\<close>





section \<open>C9: the spectrum fallback of getCoeff\<close>

text \<open>
  C9, as the code has it. For a spectrum-keyed category in which the requested spectrum
  is not a key: when the category has no spectrum at all, \<open>getCoeff\<close> returns none;
  when the sequence of the first inserted spectrum is not empty, \<open>getCoeff\<close> returns
  the record that the date lookup selects in that sequence, and does not raise.
\<close>

theorem getCoeff_spectrum_fallback:
  assumes "coeffs_getitem c nm = BySpectrum d" and "dict_getitem d light = Inl KeyError"
  shows "(d = [] \<longrightarrow> getCoeff clk nm light date c = Inr None) \<and>
         (\<forall>k l rest. d = (k, l) # rest \<and> l \<noteq> [] \<longrightarrow>
            (\<exists>r\<in>set l. getFromDate clk l date = Inr r \<and>
                        getCoeff clk nm light date c = Inr (Some r)))"
proof (intro conjI allI impI)
  assume "d = []"
  with assms show "getCoeff clk nm light date c = Inr None" by (simp add: getCoeff_def)
next
  fix k l rest
  assume h: "d = (k, l) # rest \<and> l \<noteq> []"
  then obtain r where r: "r \<in> set l" "getFromDate clk l date = Inr r"
    using getFromDate_member [of l clk date] by blast
  with assms h show "\<exists>r\<in>set l. getFromDate clk l date = Inr r \<and>
                        getCoeff clk nm light date c = Inr (Some r)"
    by (auto simp: getCoeff_def)
qed

lemma lens_visible_value:
  "lens lens_visible = [(''visible'', [Calib3 t_jan ''a'' (Obj ''lens a'')])]"
  by code_simp

lemma lens_deleted_value:
  "lens lens_deleted = [(''visible'', []), (''UV'', [Calib3 t_jan ''b'' (Obj ''lens b'')])]"
  by code_simp

text \<open>With 'visible' the only registered spectrum, \<^verbatim>\<open>getCoeff("lens", light="IR")\<close>
  returns the record of 'visible'; on a fresh profile it returns none.\<close>

theorem getCoeff_spectrum_fallback_witness:
  "coeffs_getitem lens_visible Lens =
     BySpectrum [(''visible'', [Calib3 t_jan ''a'' (Obj ''lens a'')])] \<and>
   dict_getitem [(''visible'', [Calib3 t_jan ''a'' (Obj ''lens a'')])] (Some ''IR'') =
     Inl KeyError \<and>
   getCoeff sample_clock Lens (Some ''IR'') None lens_visible =
     Inr (Some (Calib3 t_jan ''a'' (Obj ''lens a''))) \<and>
   coeffs_getitem init_coeffs Lens = BySpectrum [] \<and>
   dict_getitem ([] :: calib list dict) (Some ''IR'') = Inl KeyError \<and>
   getCoeff sample_clock Lens (Some ''IR'') None init_coeffs = Inr None"
proof -
  let ?d = "[(''visible'', [Calib3 t_jan ''a'' (Obj ''lens a'')])]"
  have t: "coeffs_getitem lens_visible Lens = BySpectrum ?d" by (simp add: lens_visible_value)
  have k: "dict_getitem ?d (Some ''IR'') = Inl KeyError" by (simp add: dict_getitem_def)
  have a: "getCoeff sample_clock Lens (Some ''IR'') None lens_visible =
      Inr (Some (Calib3 t_jan ''a'' (Obj ''lens a'')))"
    using getCoeff_spectrum_fallback [OF t k, where clk = sample_clock and date = None] by auto
  have t': "coeffs_getitem init_coeffs Lens = BySpectrum []" by (simp add: init_coeffs_def)
  have k': "dict_getitem ([] :: calib list dict) (Some ''IR'') = Inl KeyError"
    by (simp add: dict_getitem_def)
  have b: "getCoeff sample_clock Lens (Some ''IR'') None init_coeffs = Inr None"
    using getCoeff_spectrum_fallback [OF t' k', where clk = sample_clock and date = None] by simp
  from t k a t' k' b show ?thesis by simp
qed

text \<open>After \<^verbatim>\<open>addLens\<close> for 'visible' and for 'UV' and \<^verbatim>\<open>deleteCoeff\<close> of the record of
  'visible', the spectrum 'IR' has no entry and 'UV' has one, and
  \<^verbatim>\<open>getCoeff("lens", light="IR")\<close> raises IndexError.\<close>

theorem getCoeff_spectrum_fallback_counterexample:
  "lens lens_deleted = [(''visible'', []), (''UV'', [Calib3 t_jan ''b'' (Obj ''lens b'')])] \<and>
   getCoeff sample_clock Lens (Some ''IR'') None lens_deleted = Inl IndexError"
  by (simp add: lens_deleted_value getCoeff_def dict_getitem_def getFromDate_def
        sample_toDate getitem_def)

section \<open>C2: clearOldCalibrations\<close>

lemma full_store_value:
  "full_store =
     \<lparr> name = ''no camera'', depth = 16, light_spectra = [''visible''],
       dark_current = [Calib4 t_mar ''mar'' (Ndarray (arr12 2 2)) PyNone,
                       Calib4 t_jan ''jan'' (Ndarray (arr12 1 1)) PyNone],
       flat_field = [(''visible'', [Calib4 t_mar ''mar'' (Ndarray (arr12 2 2)) PyNone,
                                    Calib4 t_jan ''jan'' (Ndarray (arr12 1 1)) PyNone])],
       lens = [(''visible'', [Calib3 t_mar ''mar'' (Obj ''lens b''),
                              Calib3 t_jan ''jan'' (Obj ''lens a'')])],
       noise = [Calib4 t_mar ''mar'' (Obj ''nlf b'') PyNone,
                Calib4 t_jan ''jan'' (Obj ''nlf a'') PyNone],
       psf = [(''visible'', [Calib3 t_mar ''mar'' (Ndarray (arr12 2 2)),
                             Calib3 t_jan ''jan'' (Ndarray (arr12 1 1))])],
       coeffs_shape = Some [1, 2],
       balance = [(''visible'', [Calib3 t_mar ''mar'' (Float 2),
                                 Calib3 t_jan ''jan'' (Float 1)])] \<rparr>"
  by (simp add: full_store_def full_ops_def init_coeffs_def addDarkCurrent_def addNoise_def
        addFlatField_def addLens_def addPSF_def addDeconvolutionBalance_def registerLight_def
        checkShape_def insertByLight_def dict_setitem_def list_insert_def Let_def
        sample_toDate arr12_def t_mar_def t_jan_def)

text \<open>
  C2 on the code. In a profile that holds a March and a January record in every
  category, \<open>clearOldCalibrations\<close> keeps the January record, the oldest, in
  'dark current', 'noise', 'flat field' and 'lens', and leaves both records in 'psf'
  and 'balance'.
\<close>

theorem clearOldCalibrations_keeps_oldest:
  "clearOldCalibrations full_store =
     (None, full_store\<lparr>
        dark_current := [Calib4 t_jan ''jan'' (Ndarray (arr12 1 1)) PyNone],
        noise := [Calib4 t_jan ''jan'' (Obj ''nlf a'') PyNone],
        flat_field := [(''visible'', [Calib4 t_jan ''jan'' (Ndarray (arr12 1 1)) PyNone])],
        lens := [(''visible'', [Calib3 t_jan ''jan'' (Obj ''lens a'')])]\<rparr>) \<and>
   hd (dark_current full_store) = Calib4 t_mar ''mar'' (Ndarray (arr12 2 2)) PyNone \<and>
   psf (snd (clearOldCalibrations full_store)) =
     [(''visible'', [Calib3 t_mar ''mar'' (Ndarray (arr12 2 2)),
                     Calib3 t_jan ''jan'' (Ndarray (arr12 1 1))])]"
  by (simp add: full_store_value clearOldCalibrations_def getitem_def)

section \<open>C3: the add operations keep every sequence sorted\<close>

lemma insertDateIndex_before:
  "\<forall>x\<in>set (take (insertDateIndex d l) l). d \<le> item0 x"
  by (induction l) (auto simp: not_less)

lemma insertDateIndex_after:
  "descending l \<Longrightarrow> \<forall>x\<in>set (drop (insertDateIndex d l) l). item0 x < d"
proof (induction l)
  case Nil
  show ?case by simp
next
  case (Cons a l)
  from Cons.prems have below: "\<forall>x\<in>set l. item0 x \<le> item0 a" and desc: "descending l"
    by (simp_all add: descending_def)
  show ?case
  proof (cases "item0 a < d")
    case True
    with below have "\<forall>x\<in>set l. item0 x < d" by (meson le_less_trans)
    with True show ?thesis by simp
  next
    case False
    with Cons.IH [OF desc] show ?thesis by simp
  qed
qed

lemma descending_insert:
  assumes "descending l" and "item0 r = d"
  shows "descending (list_insert (insertDateIndex d l) r l)"
proof -
  let ?i = "insertDateIndex d l"
  have l: "l = take ?i l @ drop ?i l" by simp
  have "sorted_wrt (\<lambda>a b. item0 b \<le> item0 a) (take ?i l @ drop ?i l)"
    using assms(1) by (simp add: descending_def)
  then have parts: "sorted_wrt (\<lambda>a b. item0 b \<le> item0 a) (take ?i l)"
    "sorted_wrt (\<lambda>a b. item0 b \<le> item0 a) (drop ?i l)"
    "\<forall>x\<in>set (take ?i l). \<forall>y\<in>set (drop ?i l). item0 y \<le> item0 x"
    unfolding sorted_wrt_append by blast+
  have before: "\<forall>x\<in>set (take ?i l). item0 r \<le> item0 x"
    using insertDateIndex_before [of d l] assms(2) by simp
  have after: "\<forall>y\<in>set (drop ?i l). item0 y \<le> item0 r"
    using insertDateIndex_after [OF assms(1), of d] assms(2) by (simp add: less_imp_le)
  show ?thesis
    unfolding descending_def list_insert_def sorted_wrt_append
    using parts before after by auto
qed

lemma dict_all_setitem:
  assumes "dict_all P f" and "P v"
  shows "dict_all P (dict_setitem k v f)"
  using assms unfolding dict_all_def dict_setitem_def
  by (induction f) auto

lemma dict_all_lookup:
  assumes "dict_all P f" and "map_of f k = Some l"
  shows "P l"
  using assms unfolding dict_all_def
  by (induction f) (auto split: if_splits)

lemma checkShape_sequences:
  "checkShape x c = Inr c' \<Longrightarrow> all_sequences P c' = all_sequences P c"
  by (auto simp: checkShape_def all_sequences_def split: pyobj.splits option.splits if_splits)

lemma registerLight_sequences: "all_sequences P (registerLight k c) = all_sequences P c"
  by (simp add: registerLight_def all_sequences_def)

lemma strictly_descending_descending: "strictly_descending l \<Longrightarrow> descending l"
  unfolding strictly_descending_def descending_def
  by (rule sorted_wrt_mono_rel [where P = "\<lambda>a b. item0 b < item0 a"]) auto

lemma strictly_descending_insert:
  assumes "strictly_descending l" and "item0 r = d" and "d \<notin> item0 ` set l"
  shows "strictly_descending (list_insert (insertDateIndex d l) r l)"
proof -
  let ?i = "insertDateIndex d l"
  have desc: "descending l" using assms(1) by (rule strictly_descending_descending)
  have "sorted_wrt (\<lambda>a b. item0 b < item0 a) (take ?i l @ drop ?i l)"
    using assms(1) by (simp add: strictly_descending_def)
  then have parts: "sorted_wrt (\<lambda>a b. item0 b < item0 a) (take ?i l)"
    "sorted_wrt (\<lambda>a b. item0 b < item0 a) (drop ?i l)"
    "\<forall>x\<in>set (take ?i l). \<forall>y\<in>set (drop ?i l). item0 y < item0 x"
    unfolding sorted_wrt_append by blast+
  have "\<forall>x\<in>set (take ?i l). d \<le> item0 x \<and> item0 x \<noteq> d"
    using insertDateIndex_before [of d l] assms(3) by (auto dest: in_set_takeD)
  then have before: "\<forall>x\<in>set (take ?i l). item0 r < item0 x"
    using assms(2) by auto
  have after: "\<forall>y\<in>set (drop ?i l). item0 y < item0 r"
    using insertDateIndex_after [OF desc, of d] assms(2) by simp
  show ?thesis
    unfolding strictly_descending_def list_insert_def sorted_wrt_append
    using parts before after by auto
qed

lemma insertByLight_all:
  assumes "dict_all P f"
    and "P (list_insert (insertDateIndex d (case map_of f k of None \<Rightarrow> [] | Some l' \<Rightarrow> l')) r
              (case map_of f k of None \<Rightarrow> [] | Some l' \<Rightarrow> l'))"
  shows "dict_all P (insertByLight d r k f)"
  using assms unfolding insertByLight_def Let_def by (rule dict_all_setitem)

lemma seq_at_flat:
  "seq_at c DarkCurrent light = dark_current c"
  "seq_at c Noise light = noise c"
  by (simp_all add: seq_at_def coeffs_seq_def)

lemma seq_at_keyed:
  "seq_at c FlatField (Some k) = (case map_of (flat_field c) k of None \<Rightarrow> [] | Some l \<Rightarrow> l)"
  "seq_at c Lens (Some k) = (case map_of (lens c) k of None \<Rightarrow> [] | Some l \<Rightarrow> l)"
  "seq_at c PSF (Some k) = (case map_of (psf c) k of None \<Rightarrow> [] | Some l \<Rightarrow> l)"
  "seq_at c Balance (Some k) = (case map_of (balance c) k of None \<Rightarrow> [] | Some l \<Rightarrow> l)"
  by (simp_all add: seq_at_def coeffs_seq_def dict_getitem_def split: option.splits)

lemma seq_at_no_key:
  "seq_at c FlatField None = []" "seq_at c Lens None = []"
  "seq_at c PSF None = []" "seq_at c Balance None = []"
  by (simp_all add: seq_at_def coeffs_seq_def dict_getitem_def)

lemma map_of_insertByLight:
  "map_of (insertByLight d r k f) k' =
     (if k' = k
      then Some (list_insert (insertDateIndex d (case map_of f k of None \<Rightarrow> [] | Some l' \<Rightarrow> l')) r
                   (case map_of f k of None \<Rightarrow> [] | Some l' \<Rightarrow> l'))
      else map_of f k')"
  by (simp add: insertByLight_def Let_def dict_setitem_def update_conv')

lemma checkShape_fields:
  assumes "checkShape x c = Inr c'"
  shows "dark_current c' = dark_current c" and "noise c' = noise c"
    and "flat_field c' = flat_field c" and "lens c' = lens c" and "psf c' = psf c"
    and "balance c' = balance c"
  using assms
  by (auto simp: checkShape_def split: pyobj.splits option.splits if_splits)

lemma checkShape_seq_at:
  "checkShape x c = Inr c' \<Longrightarrow> seq_at c' nm light = seq_at c nm light"
  by (cases nm) (simp_all add: seq_at_def coeffs_seq_def checkShape_fields)

lemma registerLight_seq_at: "seq_at (registerLight k c) nm light = seq_at c nm light"
  by (cases nm) (simp_all add: seq_at_def coeffs_seq_def registerLight_def)

lemma checkShape_agree:
  "(\<exists>c'. checkShape x c = Inr c') = shapes_agree (coeffs_shape c) [x]"
  by (cases x) (auto simp: checkShape_def split: option.splits)

lemma checkShape_twice:
  "(\<exists>c1 c2. checkShape x c = Inr c1 \<and> checkShape y c1 = Inr c2) =
     shapes_agree (coeffs_shape c) [x, y]"
  by (cases x; cases y) (auto simp: checkShape_def split: option.splits)

text \<open>When an add operation returns, what it has stored, and what it has left alone.\<close>

lemma apply_add_accepted: "(fst (apply_add rd clk a c) = None) = add_accepted rd clk a c"
proof (cases a)
  case (AddDarkCurrent slope intercept date info error)
  show ?thesis
    using checkShape_twice [of slope c intercept]
    by (auto simp: AddDarkCurrent add_accepted_def addDarkCurrent_def Let_def
             simp del: shapes_agree.simps split: sum.splits)
next
  case (AddNoise x date info error)
  then show ?thesis by (auto simp: add_accepted_def addNoise_def Let_def split: sum.splits)
next
  case (AddDeconvolutionBalance x date info k)
  then show ?thesis
    by (auto simp: add_accepted_def addDeconvolutionBalance_def Let_def split: sum.splits)
next
  case (AddPSF x date info k)
  then show ?thesis by (auto simp: add_accepted_def addPSF_def Let_def split: sum.splits)
next
  case (AddFlatField arr date info error k)
  have "coeffs_shape (registerLight k c) = coeffs_shape c" by (simp add: registerLight_def)
  then show ?thesis
    using checkShape_agree [of arr "registerLight k c"]
    by (auto simp: AddFlatField add_accepted_def addFlatField_def Let_def
             simp del: shapes_agree.simps split: sum.splits)
next
  case (AddLens lns date info k)
  then show ?thesis
    by (cases lns) (auto simp: add_accepted_def addLens_def Let_def split: sum.splits)
qed

lemma apply_add_seq_at:
  "seq_at (snd (apply_add rd clk a c)) nm light =
     (if fst (apply_add rd clk a c) = None \<and> nm = op_category a \<and>
         (op_light a = None \<or> light = op_light a)
      then (case toDate clk (op_date a) of
              Inl e \<Rightarrow> seq_at c nm light
            | Inr d \<Rightarrow> list_insert (insertDateIndex d (seq_at c nm light)) (new_record rd d a)
                        (seq_at c nm light))
      else seq_at c nm light)"
proof (cases a)
  case (AddDarkCurrent slope intercept date info error)
  show ?thesis
    by (cases nm)
      (auto simp: AddDarkCurrent addDarkCurrent_def Let_def seq_at_def coeffs_seq_def
         checkShape_fields split: sum.splits)
next
  case (AddNoise x date info error)
  show ?thesis
    by (cases nm)
      (auto simp: AddNoise addNoise_def Let_def seq_at_def coeffs_seq_def split: sum.splits)
next
  case (AddDeconvolutionBalance x date info k)
  show ?thesis
    by (cases nm; cases light)
      (auto simp: AddDeconvolutionBalance addDeconvolutionBalance_def Let_def seq_at_def
         coeffs_seq_def dict_getitem_def registerLight_def map_of_insertByLight
         split: sum.splits option.splits)
next
  case (AddPSF x date info k)
  show ?thesis
    by (cases nm; cases light)
      (auto simp: AddPSF addPSF_def Let_def seq_at_def coeffs_seq_def dict_getitem_def
         registerLight_def map_of_insertByLight split: sum.splits option.splits)
next
  case (AddFlatField arr date info error k)
  show ?thesis
  proof (cases "checkShape arr (registerLight k c)")
    case (Inl e)
    then show ?thesis
      by (simp add: AddFlatField addFlatField_def Let_def registerLight_seq_at)
  next
    case (Inr c2)
    have f: "flat_field c2 = flat_field c"
      using checkShape_fields(3) [OF Inr] by (simp add: registerLight_def)
    have s: "\<And>nm light. seq_at c2 nm light = seq_at c nm light"
      using checkShape_seq_at [OF Inr] by (simp add: registerLight_seq_at)
    show ?thesis
    proof (cases "toDate clk date")
      case (Inl e)
      with Inr s show ?thesis by (simp add: AddFlatField addFlatField_def Let_def)
    next
      case d: (Inr d)
      have "seq_at (c2\<lparr>flat_field := insertByLight d (Calib4 d info arr error) k (flat_field c2)\<rparr>)
              nm light =
            (if nm = FlatField \<and> light = Some k
             then list_insert (insertDateIndex d (seq_at c2 nm light)) (Calib4 d info arr error)
                    (seq_at c2 nm light)
             else seq_at c2 nm light)"
        by (cases nm; cases light)
          (auto simp: seq_at_def coeffs_seq_def dict_getitem_def map_of_insertByLight
             split: option.splits)
      with Inr d s show ?thesis by (simp add: AddFlatField addFlatField_def Let_def)
    qed
  qed
next
  case (AddLens lns date info k)
  show ?thesis
    by (cases nm; cases light; cases lns)
      (auto simp: AddLens addLens_def Let_def seq_at_def coeffs_seq_def dict_getitem_def
         registerLight_def map_of_insertByLight split: sum.splits option.splits)
qed

lemma all_sequences_seq_at:
  assumes "all_sequences P c" and "P []"
  shows "P (seq_at c nm light)"
proof -
  have k: "\<And>f. dict_all P f \<Longrightarrow>
      P (case dict_getitem f light of Inl e \<Rightarrow> [] | Inr l \<Rightarrow> l)"
    using assms(2) dict_all_lookup [of P]
    by (auto simp: dict_getitem_def split: option.splits)
  show ?thesis
    using assms(1) k by (cases nm) (simp_all add: seq_at_def coeffs_seq_def all_sequences_def)
qed

lemma apply_add_all_sequences:
  assumes "all_sequences P c"
    and "\<And>d. toDate clk (op_date a) = Inr d \<Longrightarrow>
           P (list_insert (insertDateIndex d (seq_at c (op_category a) (op_light a)))
                (new_record rd d a) (seq_at c (op_category a) (op_light a)))"
  shows "all_sequences P (snd (apply_add rd clk a c))"
proof (cases "toDate clk (op_date a)")
  case (Inl e)
  have unchanged: "all_sequences P (registerLight k c)" for k
    using assms(1) by (simp add: registerLight_sequences)
  show ?thesis
  proof (cases a)
    case (AddFlatField arr date info error k)
    with Inl unchanged [of k] show ?thesis
      by (auto simp: addFlatField_def Let_def checkShape_sequences split: sum.splits)
  qed (use Inl assms(1) unchanged in
      \<open>simp_all add: addDarkCurrent_def addNoise_def addDeconvolutionBalance_def addPSF_def
         addLens_def Let_def\<close>)
next
  case (Inr d)
  note ins = assms(2) [OF Inr]
  show ?thesis
  proof (cases a)
    case (AddDarkCurrent slope intercept date info error)
    show ?thesis
    proof (cases "checkShape slope c")
      case (Inl e)
      with Inr AddDarkCurrent assms(1) show ?thesis by (simp add: addDarkCurrent_def)
    next
      case c1: (Inr c1)
      show ?thesis
      proof (cases "checkShape intercept c1")
        case (Inl e)
        with Inr AddDarkCurrent c1 assms(1) checkShape_sequences [OF c1, of P] show ?thesis
          by (simp add: addDarkCurrent_def)
      next
        case c2: (Inr c2)
        have s2: "all_sequences P c2"
          using checkShape_sequences [OF c1, of P] checkShape_sequences [OF c2, of P] assms(1)
          by simp
        have "dark_current c2 = dark_current c"
          using checkShape_fields(1) [OF c1] checkShape_fields(1) [OF c2] by simp
        with ins s2 Inr AddDarkCurrent c1 c2 show ?thesis
          by (simp add: addDarkCurrent_def Let_def all_sequences_def seq_at_flat)
      qed
    qed
  next
    case (AddNoise x date info error)
    with ins Inr assms(1) show ?thesis
      by (simp add: addNoise_def Let_def all_sequences_def seq_at_flat)
  next
    case (AddDeconvolutionBalance x date info k)
    have "dict_all P (insertByLight d (Calib3 d info x) k (balance c))"
      using assms(1) ins AddDeconvolutionBalance
      by (intro insertByLight_all) (simp_all add: all_sequences_def seq_at_keyed)
    with Inr AddDeconvolutionBalance assms(1) show ?thesis
      by (simp add: addDeconvolutionBalance_def Let_def all_sequences_def registerLight_def)
  next
    case (AddPSF x date info k)
    have "dict_all P (insertByLight d (Calib3 d info x) k (psf c))"
      using assms(1) ins AddPSF
      by (intro insertByLight_all) (simp_all add: all_sequences_def seq_at_keyed)
    with Inr AddPSF assms(1) show ?thesis
      by (simp add: addPSF_def Let_def all_sequences_def registerLight_def)
  next
    case (AddFlatField arr date info error k)
    show ?thesis
    proof (cases "checkShape arr (registerLight k c)")
      case (Inl e)
      with AddFlatField assms(1) show ?thesis
        by (simp add: addFlatField_def Let_def registerLight_sequences)
    next
      case c2: (Inr c2)
      have s2: "all_sequences P c2"
        using checkShape_sequences [OF c2, of P] assms(1) by (simp add: registerLight_sequences)
      have f: "flat_field c2 = flat_field c"
        using checkShape_fields(3) [OF c2] by (simp add: registerLight_def)
      have "dict_all P (insertByLight d (Calib4 d info arr error) k (flat_field c))"
        using assms(1) ins AddFlatField
        by (intro insertByLight_all) (simp_all add: all_sequences_def seq_at_keyed)
      with Inr AddFlatField c2 s2 f show ?thesis
        by (simp add: addFlatField_def Let_def all_sequences_def)
    qed
  next
    case (AddLens lns date info k)
    show ?thesis
    proof (cases "case lns of LensInstance x \<Rightarrow> Inr x | LensFile p \<Rightarrow> rd p")
      case (Inl e)
      with Inr AddLens assms(1) show ?thesis
        by (simp add: addLens_def Let_def registerLight_sequences)
    next
      case x: (Inr x)
      then have r: "new_record rd d a = Calib3 d info x"
        using AddLens by (cases lns) simp_all
      have "dict_all P (insertByLight d (Calib3 d info x) k (lens c))"
        using assms(1) ins AddLens r
        by (intro insertByLight_all) (simp_all add: all_sequences_def seq_at_keyed)
      with Inr AddLens x assms(1) show ?thesis
        by (simp add: addLens_def Let_def all_sequences_def registerLight_def)
    qed
  qed
qed

lemma item0_new_record: "item0 (new_record rd d a) = d"
  by (cases a) simp_all

lemma apply_add_descending:
  assumes "all_sequences descending c"
  shows "all_sequences descending (snd (apply_add rd clk a c))"
proof (rule apply_add_all_sequences [OF assms])
  fix d
  have "descending (seq_at c (op_category a) (op_light a))"
    using assms by (rule all_sequences_seq_at) (simp add: descending_def)
  then show "descending (list_insert (insertDateIndex d (seq_at c (op_category a) (op_light a)))
      (new_record rd d a) (seq_at c (op_category a) (op_light a)))"
    by (rule descending_insert) (rule item0_new_record)
qed

lemma apply_add_strictly_descending:
  assumes "all_sequences strictly_descending c"
    and "\<And>d. toDate clk (op_date a) = Inr d \<Longrightarrow>
           d \<notin> item0 ` set (seq_at c (op_category a) (op_light a))"
  shows "all_sequences strictly_descending (snd (apply_add rd clk a c))"
proof (rule apply_add_all_sequences [OF assms(1)])
  fix d
  assume d: "toDate clk (op_date a) = Inr d"
  have "strictly_descending (seq_at c (op_category a) (op_light a))"
    using assms(1) by (rule all_sequences_seq_at) (simp add: strictly_descending_def)
  then show "strictly_descending
      (list_insert (insertDateIndex d (seq_at c (op_category a) (op_light a)))
         (new_record rd d a) (seq_at c (op_category a) (op_light a)))"
    using item0_new_record assms(2) [OF d] by (rule strictly_descending_insert)
qed

lemma run_adds_descending:
  "all_sequences descending c \<Longrightarrow> all_sequences descending (run_adds rd ops c)"
proof (induction ops arbitrary: c)
  case Nil
  then show ?case by simp
next
  case (Cons x ops)
  obtain clk a where x: "x = (clk, a)" by (cases x)
  from Cons.prems have "all_sequences descending (snd (apply_add rd clk a c))"
    by (rule apply_add_descending)
  then show ?case using Cons.IH x by simp
qed

lemma init_descending: "all_sequences descending init_coeffs"
  by (simp add: all_sequences_def dict_all_def descending_def init_coeffs_def)

lemma run_adds_snoc:
  "run_adds rd (ops @ [(clk, a)]) c = snd (apply_add rd clk a (run_adds rd ops c))"
  by (induction rd ops c rule: run_adds.induct) simp_all

lemma init_strictly_descending: "all_sequences strictly_descending init_coeffs"
  by (simp add: all_sequences_def dict_all_def strictly_descending_def init_coeffs_def)

text \<open>
  C3, as the code has it. After any sequence of add operations on a new profile, with
  dates in any order, every sequence of every category is sorted descending by date,
  newest first; records of equal date are allowed. An add operation goes through exactly
  when its date is valid, its arrays agree with the reference shape and its lens file
  can be read. When it goes through, the sequence of its category and spectrum becomes
  the stored sequence with the new record inserted at the rank \<open>insertDateIndex\<close>,
  which is after every stored record dated on or after the new date and before every
  older one; all stored records are kept in their order, also those of the same date.
  Every other sequence, and every sequence when the operation raises, is left as it
  was. An operation whose date is not yet in its sequence keeps strictly descending
  sequences strictly descending. The profile after a sequence of operations is the one
  that the last operation makes of the profile after the operations before it.
\<close>

theorem adds_keep_descending:
  "all_sequences descending (run_adds rd ops init_coeffs) \<and>
   ((fst (apply_add rd clk a c) = None) = add_accepted rd clk a c) \<and>
   (fst (apply_add rd clk a c) = None \<longrightarrow>
      (\<exists>d. toDate clk (op_date a) = Inr d \<and> item0 (new_record rd d a) = d \<and>
           seq_at (snd (apply_add rd clk a c)) (op_category a) (op_light a) =
             take (insertDateIndex d (seq_at c (op_category a) (op_light a)))
               (seq_at c (op_category a) (op_light a)) @
             new_record rd d a #
             drop (insertDateIndex d (seq_at c (op_category a) (op_light a)))
               (seq_at c (op_category a) (op_light a)))) \<and>
   (fst (apply_add rd clk a c) \<noteq> None \<or> nm \<noteq> op_category a \<or>
    (op_light a \<noteq> None \<and> light \<noteq> op_light a) \<longrightarrow>
      seq_at (snd (apply_add rd clk a c)) nm light = seq_at c nm light) \<and>
   (\<forall>d l. descending l \<longrightarrow>
      (\<forall>x\<in>set (take (insertDateIndex d l) l). d \<le> item0 x) \<and>
      (\<forall>x\<in>set (drop (insertDateIndex d l) l). item0 x < d)) \<and>
   all_sequences strictly_descending init_coeffs \<and>
   (all_sequences strictly_descending c \<and>
    (\<forall>d. toDate clk (op_date a) = Inr d \<longrightarrow>
         d \<notin> item0 ` set (seq_at c (op_category a) (op_light a))) \<longrightarrow>
      all_sequences strictly_descending (snd (apply_add rd clk a c))) \<and>
   run_adds rd (ops @ [(clk, a)]) c = snd (apply_add rd clk a (run_adds rd ops c))"
proof (intro conjI impI)
  show "run_adds rd (ops @ [(clk, a)]) c = snd (apply_add rd clk a (run_adds rd ops c))"
    by (rule run_adds_snoc)
next
  show "all_sequences descending (run_adds rd ops init_coeffs)"
    by (rule run_adds_descending [OF init_descending])
  show "(fst (apply_add rd clk a c) = None) = add_accepted rd clk a c"
    by (rule apply_add_accepted)
  show "\<forall>d l. descending l \<longrightarrow>
      (\<forall>x\<in>set (take (insertDateIndex d l) l). d \<le> item0 x) \<and>
      (\<forall>x\<in>set (drop (insertDateIndex d l) l). item0 x < d)"
    using insertDateIndex_before insertDateIndex_after by blast
  show "all_sequences strictly_descending init_coeffs" by (rule init_strictly_descending)
next
  assume ok: "fst (apply_add rd clk a c) = None"
  then have "add_accepted rd clk a c" by (simp add: apply_add_accepted)
  then obtain d where d: "toDate clk (op_date a) = Inr d"
    by (auto simp: add_accepted_def split: sum.splits)
  have "seq_at (snd (apply_add rd clk a c)) (op_category a) (op_light a) =
      list_insert (insertDateIndex d (seq_at c (op_category a) (op_light a)))
        (new_record rd d a) (seq_at c (op_category a) (op_light a))"
    using ok d by (simp add: apply_add_seq_at)
  with d show "\<exists>d. toDate clk (op_date a) = Inr d \<and> item0 (new_record rd d a) = d \<and>
           seq_at (snd (apply_add rd clk a c)) (op_category a) (op_light a) =
             take (insertDateIndex d (seq_at c (op_category a) (op_light a)))
               (seq_at c (op_category a) (op_light a)) @
             new_record rd d a #
             drop (insertDateIndex d (seq_at c (op_category a) (op_light a)))
               (seq_at c (op_category a) (op_light a))"
    by (auto simp: list_insert_def item0_new_record)
next
  assume "fst (apply_add rd clk a c) \<noteq> None \<or> nm \<noteq> op_category a \<or>
    (op_light a \<noteq> None \<and> light \<noteq> op_light a)"
  then show "seq_at (snd (apply_add rd clk a c)) nm light = seq_at c nm light"
    by (auto simp: apply_add_seq_at)
next
  assume h: "all_sequences strictly_descending c \<and>
    (\<forall>d. toDate clk (op_date a) = Inr d \<longrightarrow>
         d \<notin> item0 ` set (seq_at c (op_category a) (op_light a)))"
  show "all_sequences strictly_descending (snd (apply_add rd clk a c))"
    by (rule apply_add_strictly_descending) (use h in blast)+
qed

lemma one_noise_facts:
  "add_accepted no_file sample_clock add_march one_noise"
  "all_sequences strictly_descending one_noise"
  "seq_at one_noise Noise None = [noise_jan]"
  "seq_at one_noise Lens (Some ''visible'') = []"
  "new_record no_file t_mar add_march = noise_mar"
  "snd (apply_add no_file sample_clock add_march one_noise) = two_noise"
  by code_simp+

text \<open>The January record is added first; the call that adds the March record goes
  through and puts it before the January record.\<close>

theorem adds_keep_descending_witness:
  "all_sequences descending two_noise \<and>
   add_accepted no_file sample_clock add_march one_noise \<and>
   fst (apply_add no_file sample_clock add_march one_noise) = None \<and>
   toDate sample_clock (op_date add_march) = Inr t_mar \<and>
   seq_at one_noise Noise None = [noise_jan] \<and>
   seq_at (snd (apply_add no_file sample_clock add_march one_noise)) Noise None =
     [noise_mar, noise_jan] \<and>
   seq_at (snd (apply_add no_file sample_clock add_march one_noise)) Lens (Some ''visible'') =
     [] \<and>
   all_sequences strictly_descending one_noise \<and>
   all_sequences strictly_descending (snd (apply_add no_file sample_clock add_march one_noise)) \<and>
   descending [noise_mar, noise_jan] \<and>
   insertDateIndex t_feb [noise_mar, noise_jan] = 1 \<and>
   list_all (\<lambda>x. t_feb \<le> item0 x)
     (take (insertDateIndex t_feb [noise_mar, noise_jan]) [noise_mar, noise_jan]) \<and>
   list_all (\<lambda>x. item0 x < t_feb)
     (drop (insertDateIndex t_feb [noise_mar, noise_jan]) [noise_mar, noise_jan])"
proof -
  note t = adds_keep_descending [where rd = no_file and clk = sample_clock and a = add_march
      and c = one_noise and nm = Lens and light = "Some ''visible''" and ops =
      "[(sample_clock, AddNoise (Obj ''nlf a'') (Some s_jan) ''january'' PyNone),
        (sample_clock, AddNoise (Obj ''nlf b'') (Some s_mar) ''march'' PyNone)]"]
  note p1 = t [THEN conjunct1]
  note p2 = t [THEN conjunct2, THEN conjunct1]
  note p3 = t [THEN conjunct2, THEN conjunct2, THEN conjunct1]
  note p4 = t [THEN conjunct2, THEN conjunct2, THEN conjunct2, THEN conjunct1]
  note p5 = t [THEN conjunct2, THEN conjunct2, THEN conjunct2, THEN conjunct2, THEN conjunct1]
  note p7 = t [THEN conjunct2, THEN conjunct2, THEN conjunct2, THEN conjunct2, THEN conjunct2,
      THEN conjunct2, THEN conjunct1]
  have cat: "op_category add_march = Noise" "op_light add_march = None"
    "op_date add_march = Some s_mar"
    by (simp_all add: add_march_def)
  from p1 have a: "all_sequences descending two_noise" by (simp only: two_noise_def)
  from p2 one_noise_facts(1)
  have ok: "fst (apply_add no_file sample_clock add_march one_noise) = None" by simp
  have dt: "toDate sample_clock (op_date add_march) = Inr t_mar"
    by (simp add: cat sample_toDate)
  have i0: "insertDateIndex t_mar [noise_jan] = 0" by code_simp
  from p3 ok obtain d where "toDate sample_clock (op_date add_march) = Inr d"
    and s: "seq_at (snd (apply_add no_file sample_clock add_march one_noise))
              (op_category add_march) (op_light add_march) =
            take (insertDateIndex d (seq_at one_noise (op_category add_march) (op_light add_march)))
              (seq_at one_noise (op_category add_march) (op_light add_march)) @
            new_record no_file d add_march #
            drop (insertDateIndex d (seq_at one_noise (op_category add_march) (op_light add_march)))
              (seq_at one_noise (op_category add_march) (op_light add_march))"
    by blast
  with dt have dm: "d = t_mar" by simp
  have ins: "seq_at (snd (apply_add no_file sample_clock add_march one_noise)) Noise None =
      [noise_mar, noise_jan]"
    using s unfolding dm cat one_noise_facts(3) one_noise_facts(5) i0 by simp
  from p4 have other: "seq_at (snd (apply_add no_file sample_clock add_march one_noise)) Lens
      (Some ''visible'') = []"
    by (simp add: cat one_noise_facts(4))
  have dt': "toDate sample_clock (Some s_mar) = Inr t_mar" by (simp add: sample_toDate)
  have nin: "t_mar \<notin> item0 ` set [noise_jan]"
    by (simp add: noise_jan_def t_jan_def t_mar_def)
  have "\<forall>d. toDate sample_clock (op_date add_march) = Inr d \<longrightarrow>
      d \<notin> item0 ` set (seq_at one_noise (op_category add_march) (op_light add_march))"
    unfolding cat one_noise_facts(3) dt' using nin by auto
  with p7 one_noise_facts(2)
  have strict: "all_sequences strictly_descending
      (snd (apply_add no_file sample_clock add_march one_noise))"
    by blast
  from p5 have "descending [noise_mar, noise_jan] \<longrightarrow>
      (\<forall>x\<in>set (take (insertDateIndex t_feb [noise_mar, noise_jan]) [noise_mar, noise_jan]).
         t_feb \<le> item0 x) \<and>
      (\<forall>x\<in>set (drop (insertDateIndex t_feb [noise_mar, noise_jan]) [noise_mar, noise_jan]).
         item0 x < t_feb)"
    by (elim allE)
  with two_noise_descending have b:
    "(\<forall>x\<in>set (take (insertDateIndex t_feb [noise_mar, noise_jan]) [noise_mar, noise_jan]).
         t_feb \<le> item0 x) \<and>
      (\<forall>x\<in>set (drop (insertDateIndex t_feb [noise_mar, noise_jan]) [noise_mar, noise_jan]).
         item0 x < t_feb)"
    by (rule rev_mp)
  have i: "insertDateIndex t_feb [noise_mar, noise_jan] = 1"
    by (simp add: noise_mar_def noise_jan_def t_mar_def t_jan_def t_feb_def)
  show ?thesis
    unfolding list_all_iff
    by (intro conjI a one_noise_facts(1) ok dt one_noise_facts(3) ins other
          one_noise_facts(2) strict two_noise_descending i conjunct1 [OF b] conjunct2 [OF b])
qed

lemma same_date_value:
  "noise same_date =
     [Calib4 t_jan ''first'' (Obj ''nlf a'') PyNone, Calib4 t_jan ''second'' (Obj ''nlf a'') PyNone]"
  by code_simp

text \<open>Two calls of \<^verbatim>\<open>addNoise\<close> with the same date leave two records of equal date: the
  sequence is not strictly descending.\<close>

theorem adds_keep_descending_counterexample:
  "noise same_date =
     [Calib4 t_jan ''first'' (Obj ''nlf a'') PyNone, Calib4 t_jan ''second'' (Obj ''nlf a'') PyNone] \<and>
   \<not> strictly_descending (noise same_date) \<and>
   \<not> all_sequences strictly_descending same_date"
  by (simp add: same_date_value strictly_descending_def all_sequences_def)

section \<open>C10: addFlatField registers the spectrum before it checks the shape\<close>

text \<open>
  C10, as the code has it. In a profile whose reference shape is set, \<open>addFlatField\<close>
  with an array whose first two dimensions differ from it raises and inserts no record,
  and the state it leaves is the one after \<open>registerLight\<close>, so that the spectrum is
  registered afterwards: a spectrum that was not registered has been appended to the
  list of registered spectra, and the failed call has changed the profile; with a
  spectrum that was registered already the failed call leaves the profile as it was.
\<close>

theorem addFlatField_not_atomic:
  assumes "coeffs_shape c = Some s" and "take 2 s \<noteq> take 2 (shape a)"
  shows "addFlatField clk (Ndarray a) date info error light_spectrum c =
           (Some Exception, registerLight light_spectrum c) \<and>
         flat_field (registerLight light_spectrum c) = flat_field c \<and>
         light_spectrum \<in> set (light_spectra (registerLight light_spectrum c)) \<and>
         (light_spectrum \<notin> set (light_spectra c) \<longrightarrow>
            light_spectra (registerLight light_spectrum c) = light_spectra c @ [light_spectrum] \<and>
            registerLight light_spectrum c \<noteq> c) \<and>
         (light_spectrum \<in> set (light_spectra c) \<longrightarrow> registerLight light_spectrum c = c)"
proof -
  have "coeffs_shape (registerLight light_spectrum c) = Some s"
    using assms(1) by (simp add: registerLight_def)
  then have "checkShape (Ndarray a) (registerLight light_spectrum c) = Inl Exception"
    using assms(2) by (simp add: checkShape_def)
  then have "addFlatField clk (Ndarray a) date info error light_spectrum c =
      (Some Exception, registerLight light_spectrum c)"
    by (simp add: addFlatField_def Let_def)
  moreover have "light_spectrum \<notin> set (light_spectra c) \<Longrightarrow> registerLight light_spectrum c \<noteq> c"
  proof
    assume n: "light_spectrum \<notin> set (light_spectra c)" and e: "registerLight light_spectrum c = c"
    from n have "light_spectra (registerLight light_spectrum c) = light_spectra c @ [light_spectrum]"
      by (simp add: registerLight_def)
    with e show False by simp
  qed
  ultimately show ?thesis by (auto simp: registerLight_def)
qed

text \<open>A flat field of shape 1 x 2 for the new spectrum 'IR', added to a profile whose
  reference shape is 2 x 2; and a flat field of shape 2 x 2 for 'visible', added to the
  profile that holds a 1 x 2 flat field for 'visible'.\<close>

theorem addFlatField_not_atomic_witness:
  "coeffs_shape shaped = Some [2, 2] \<and> take 2 [2, 2] \<noteq> take 2 (shape (arr12 1 1)) \<and>
   addFlatField sample_clock (Ndarray (arr12 1 1)) None [] PyNone ''IR'' shaped =
     (Some Exception, shaped\<lparr>light_spectra := [''IR'']\<rparr>) \<and>
   flat_field (shaped\<lparr>light_spectra := [''IR'']\<rparr>) = flat_field shaped \<and>
   shaped\<lparr>light_spectra := [''IR'']\<rparr> \<noteq> shaped \<and>
   coeffs_shape flat_visible = Some [1, 2] \<and> take 2 [1, 2] \<noteq> take 2 (shape arr22) \<and>
   addFlatField sample_clock (Ndarray arr22) None [] PyNone ''visible'' flat_visible =
     (Some Exception, flat_visible)"
proof -
  have s: "coeffs_shape shaped = Some [2, 2]" by (simp add: shaped_def)
  have d: "take 2 [2, 2] \<noteq> take 2 (shape (arr12 1 1))" by (simp add: arr12_def)
  have r: "registerLight ''IR'' shaped = shaped\<lparr>light_spectra := [''IR'']\<rparr>"
    by (simp add: registerLight_def shaped_def init_coeffs_def)
  have n: "''IR'' \<notin> set (light_spectra shaped)" by (simp add: shaped_def init_coeffs_def)
  from addFlatField_not_atomic [OF s d, where clk = sample_clock and date = None
      and info = "[]" and error = PyNone and light_spectrum = "''IR''"] r n
  have a: "addFlatField sample_clock (Ndarray (arr12 1 1)) None [] PyNone ''IR'' shaped =
     (Some Exception, shaped\<lparr>light_spectra := [''IR'']\<rparr>) \<and>
   flat_field (shaped\<lparr>light_spectra := [''IR'']\<rparr>) = flat_field shaped \<and>
   shaped\<lparr>light_spectra := [''IR'']\<rparr> \<noteq> shaped"
    by simp
  have s': "coeffs_shape flat_visible = Some [1, 2]" by code_simp
  have d': "take 2 [1, 2] \<noteq> take 2 (shape arr22)" by (simp add: arr22_def)
  have n': "''visible'' \<in> set (light_spectra flat_visible)" by code_simp
  from addFlatField_not_atomic [OF s' d', where clk = sample_clock and date = None
      and info = "[]" and error = PyNone and light_spectrum = "''visible''"] n'
  have b: "addFlatField sample_clock (Ndarray arr22) None [] PyNone ''visible'' flat_visible =
      (Some Exception, flat_visible)"
    by simp
  from s d a s' d' b show ?thesis by simp
qed

text \<open>The profile holds a 1 x 2 flat field for 'visible', so its reference shape is set
  and 'visible' is registered. \<^verbatim>\<open>addFlatField\<close> with a 2 x 2 array for 'visible' raises
  and leaves the profile, and with it the list of registered spectra, as it was.\<close>

theorem addFlatField_not_atomic_counterexample:
  "coeffs_shape flat_visible = Some [1, 2] \<and> shape arr22 = [2, 2] \<and>
   light_spectra flat_visible = [''visible''] \<and>
   addFlatField sample_clock (Ndarray arr22) None [] PyNone ''visible'' flat_visible =
     (Some Exception, flat_visible)"
  by code_simp

section \<open>C4: the background of the dark-current stage\<close>

text \<open>The test \<^verbatim>\<open>type(d) == tuple\<close> never holds, so the background is the payload of the
  record whatever it is.\<close>

lemma calcDarkCurrent_payload:
  "calcDarkCurrent X clk exposuretime date self =
     bind_exn (getFromDate clk (dark_current (coeffs self)) date) (\<lambda>d. Inr (item2 d))"
  by (simp add: calcDarkCurrent_def type_of_record_def)

text \<open>
  C4 on the code. The record stored by \<^verbatim>\<open>addDarkCurrent(slope, intercept)\<close> with
  slope [1, 2] and intercept [10, 20] holds the pair of the two arrays. With exposure
  time 2 and no background images, \<open>calcDarkCurrent\<close> returns this pair as the
  background, not the array [12, 24]; the pair is what the stage stores as background
  and subtracts, the subtraction raises, and \<open>correct\<close> returns the image [100, 100]
  as it was given.
\<close>

theorem calcDarkCurrent_returns_pair:
  "dark_current (coeffs dark_cam) =
     [Calib4 t_jan [] (Tuple (Ndarray (arr12 1 2)) (Ndarray (arr12 10 20))) PyNone] \<and>
   calcDarkCurrent sample_collab sample_clock (Some 2) None dark_cam =
     Inr (Tuple (Ndarray (arr12 1 2)) (Ndarray (arr12 10 20))) \<and>
   correctDarkCurrent sample_collab sample_clock (arr12 100 100) (Some 2) None None dark_cam =
     ((arr12 100 100, Some ValueError),
      dark_cam\<lparr>temp_bg := Some (Tuple (Ndarray (arr12 1 2)) (Ndarray (arr12 10 20)))\<rparr>) \<and>
   fst (correct sample_collab sample_clock (Single (Array (arr12 100 100))) None (Some 2) None
          0 True (DateStr None) False False dark_cam) = Inr (arr12 100 100)"
  by code_simp

section \<open>C7: a run with nothing to correct\<close>

lemma acquire_one_image:
  assumes "one_image imgs src"
  shows "acquire X clk imgs date self = (imread_float X src, self)"
proof (cases imgs)
  case (Seq xs)
  with assms show ?thesis by (simp add: one_image_def getitem_def bind_exn_def)
next
  case (Single s)
  show ?thesis
  proof (cases s)
    case (Path p)
    with Single assms show ?thesis by (simp add: one_image_def)
  next
    case (Array a)
    with Single assms show ?thesis by (auto simp: one_image_def)
  qed
qed

lemma checkShape_passes:
  assumes "coeffs_shape c = None \<or> (\<exists>s. coeffs_shape c = Some s \<and> take 2 s = take 2 (shape a))"
  shows "\<exists>c1. checkShape (Ndarray a) c = Inr c1 \<and> dark_current c1 = dark_current c \<and>
           flat_field c1 = flat_field c \<and> lens c1 = lens c"
  using assms by (auto simp: checkShape_def)

lemma no_records_resolved:
  assumes "coeffs_getitem c nm = BySpectrum d" and "no_records d"
  shows "resolved_sequence c nm light = None \<or> resolved_sequence c nm light = Some []"
proof -
  have m: "\<And>k l. map_of d k = Some l \<Longrightarrow> l = []"
    using assms(2) dict_all_lookup [of "\<lambda>l. l = []" d] by (simp add: no_records_def)
  have h: "\<And>kl rest. d = kl # rest \<Longrightarrow> snd kl = []"
    using assms(2) by (auto simp: no_records_def dict_all_def)
  show ?thesis
    using assms(1) m h
    by (auto simp: resolved_sequence_def split: option.splits list.splits)
qed

lemma getCoeff_no_records:
  assumes "coeffs_getitem c nm = BySpectrum d" and "no_records d"
  shows "getCoeff clk nm light date c = Inr None \<or> getCoeff clk nm light date c = Inl IndexError"
  using no_records_resolved [OF assms, of light]
  by (auto simp: getCoeff_resolved getFromDate_Nil)

lemma try_darkCurrent_no_records:
  assumes "dark_current (coeffs self) = []"
  shows "try_darkCurrent X clk img exposure_time None date self = (img, self)"
  using assms
  by (simp add: try_darkCurrent_def correctDarkCurrent_def calcDarkCurrent_payload
        getFromDate_Nil bind_exn_def split: sum.splits)

lemma try_vignetting_no_records:
  assumes "no_records (flat_field (coeffs self))"
  shows "try_vignetting X clk img light date self = img"
proof (cases "date_getitem date ''flat field''")
  case (Inl e)
  then show ?thesis by (simp add: try_vignetting_def)
next
  case (Inr d)
  have "getCoeff clk FlatField light d (coeffs self) = Inr None \<or>
        getCoeff clk FlatField light d (coeffs self) = Inl IndexError"
    by (rule getCoeff_no_records [OF _ assms]) simp
  with Inr show ?thesis by (auto simp: try_vignetting_def correctVignetting_def)
qed

lemma try_lens_no_records:
  assumes "no_records (lens (coeffs self))"
  shows "try_lens X clk img light date keep_size self = img"
proof (cases "date_getitem date ''lens''")
  case (Inl e)
  then show ?thesis by (simp add: try_lens_def)
next
  case (Inr d)
  have "getCoeff clk Lens light d (coeffs self) = Inr None \<or>
        getCoeff clk Lens light d (coeffs self) = Inl IndexError"
    by (rule getCoeff_no_records [OF _ assms]) simp
  with Inr show ?thesis
    by (auto simp: try_lens_def correctLens_def getLens_def bind_exn_def)
qed

text \<open>
  C7, as the code has it. For one input image that the reader returns as \<open>img\<close>, a
  store that holds no dark-current, flat-field or lens record and whose reference shape
  is unset or agrees with \<open>img\<close> on the first two dimensions, no background images, a
  threshold that is not positive, and \<open>deblur\<close> and \<open>denoise\<close> off: \<open>correct\<close>
  returns \<open>img\<close>, whatever the collaborators, the dates, the spectrum and the exposure
  time are.
\<close>

theorem correct_identity:
  assumes "one_image imgs src" and "imread_float X src = Inr img"
    and "coeffs_shape (coeffs self) = None \<or>
         (\<exists>s. coeffs_shape (coeffs self) = Some s \<and> take 2 s = take 2 (shape img))"
    and "dark_current (coeffs self) = []"
    and "no_records (flat_field (coeffs self))"
    and "no_records (lens (coeffs self))"
    and "threshold \<le> 0"
  shows "fst (correct X clk imgs None exposure_time light_spectrum threshold keep_size date
                False False self) = Inr img"
proof -
  have acq: "acquire X clk imgs date self = (Inr img, self)"
    using acquire_one_image [OF assms(1)] assms(2) by simp
  from checkShape_passes [OF assms(3)] obtain c1
    where c1: "checkShape (Ndarray img) (coeffs self) = Inr c1"
      and d1: "dark_current c1 = []" and f1: "no_records (flat_field c1)"
      and l1: "no_records (lens c1)"
    using assms(4,5,6) by auto
  define light where "light =
    (case light_spectrum of
       None \<Rightarrow> (case light_spectra (coeffs self) of [] \<Rightarrow> None | k # _ \<Rightarrow> Some k)
     | Some k \<Rightarrow> Some k)"
  define self2 where "self2 = self\<lparr>coeffs := c1, last_light_spectrum := light\<rparr>"
  have d2: "dark_current (coeffs self2) = []" and f2: "no_records (flat_field (coeffs self2))"
    and l2: "no_records (lens (coeffs self2))"
    using d1 f1 l1 by (simp_all add: self2_def)
  have s2: "try_darkCurrent X clk img exposure_time None date self2 = (img, self2)"
    by (rule try_darkCurrent_no_records [OF d2])
  have s3: "try_vignetting X clk img light date self2 = img"
    by (rule try_vignetting_no_records [OF f2])
  have s6: "try_lens X clk img light date keep_size self2 = img"
    by (rule try_lens_no_records [OF l2])
  show ?thesis
    using acq c1 s2 s3 s6 assms(7)
    by (simp add: correct_def Let_def light_def [symmetric] self2_def [symmetric])
qed

text \<open>A fresh camera returns the image [2, 4] as it is.\<close>

theorem correct_identity_witness:
  "one_image (Single (Array (arr12 2 4))) (Array (arr12 2 4)) \<and>
   imread_float sample_collab (Array (arr12 2 4)) = Inr (arr12 2 4) \<and>
   coeffs_shape (coeffs init_camera) = None \<and>
   dark_current (coeffs init_camera) = [] \<and>
   no_records (flat_field (coeffs init_camera)) \<and>
   no_records (lens (coeffs init_camera)) \<and>
   fst (correct sample_collab sample_clock (Single (Array (arr12 2 4))) None None None 0 True
          (DateStr None) False False init_camera) = Inr (arr12 2 4)"
proof -
  have a: "one_image (Single (Array (arr12 2 4))) (Array (arr12 2 4))"
    by (simp add: one_image_def arr12_def)
  have b: "imread_float sample_collab (Array (arr12 2 4)) = Inr (arr12 2 4)"
    by (simp add: sample_collab_def sample_read_def)
  have c: "coeffs_shape (coeffs init_camera) = None"
    by (simp add: init_camera_def init_coeffs_def)
  have d: "dark_current (coeffs init_camera) = []"
    by (simp add: init_camera_def init_coeffs_def)
  have e: "no_records (flat_field (coeffs init_camera))"
    by (simp add: init_camera_def init_coeffs_def no_records_def dict_all_def)
  have f: "no_records (lens (coeffs init_camera))"
    by (simp add: init_camera_def init_coeffs_def no_records_def dict_all_def)
  have g: "(0::real) \<le> 0" by simp
  from c have c': "coeffs_shape (coeffs init_camera) = None \<or>
      (\<exists>s. coeffs_shape (coeffs init_camera) = Some s \<and> take 2 s = take 2 (shape (arr12 2 4)))"
    by simp
  note h = correct_identity [OF a b c' d e f g, where clk = sample_clock
      and exposure_time = None and light_spectrum = None and keep_size = True
      and date = "DateStr None"]
  from a b c d e f h show ?thesis by simp
qed

text \<open>A camera that has corrected a 2 x 2 image holds no record and has the reference
  shape 2 x 2; a run on a 1 x 2 image raises.\<close>

theorem correct_identity_counterexample:
  "used_cam = init_camera\<lparr>coeffs := init_coeffs\<lparr>coeffs_shape := Some [2, 2]\<rparr>\<rparr> \<and>
   dark_current (coeffs used_cam) = [] \<and> flat_field (coeffs used_cam) = [] \<and>
   lens (coeffs used_cam) = [] \<and>
   fst (correct sample_collab sample_clock (Single (Array (arr12 2 4))) None None None 0 True
          (DateStr None) False False used_cam) = Inl Exception"
  by code_simp

section \<open>C8: which exceptions leave correct\<close>

















text \<open>On the camera with a point spread function and an emptied balance sequence, the
  deblur stage divides the image [2, 4] by its maximum and then raises IndexError;
  \<open>correct\<close> returns [1/2, 1].\<close>

lemma correctBlur_raises_after_normalising:
  "correctBlur sample_collab sample_clock (arr12 2 4) (Some ''visible'') None psf_cam =
     (arr12 (1 / 2) 1, Inl IndexError) \<and>
   blur_fails_late sample_collab sample_clock (arr12 2 4) (Some ''visible'') (DateStr None)
     psf_cam \<and>
   fst (correct sample_collab sample_clock (Single (Array (arr12 2 4))) None None None 0 True
          (DateStr None) True False psf_cam) = Inr (arr12 (1 / 2) 1)"
  by code_simp

end
